theory Spec2Isabelle
  imports Complex_Main "HOL-Library.AList" "HOL-Library.Multiset"
begin

section \<open>Python values, exceptions and dictionaries\<close>

text \<open>
  The slideshow engine of \<^verbatim>\<open>src/slide.py\<close> is embedded function by function.
  An exception is a value \<open>Inl e\<close> of the sum type \<open>error + 'a\<close>; a normal return
  is \<open>Inr v\<close>. Python floats are idealised as exact real numbers (no rounding, no
  NaN, no infinities); Python's unbounded integers are \<open>int\<close>; a \<open>str\<close> is a
  list of characters (code points below 256).
\<close>

datatype error =
    IndexError | KeyError | TypeError | ValueError | AttributeError
  | UnboundLocalError | ZeroDivisionError | OSError | ConnectionError | JSONDecodeError

definition bind_err :: "error + 'a \<Rightarrow> ('a \<Rightarrow> error + 'b) \<Rightarrow> error + 'b" where
  "bind_err m f = (case m of Inl e \<Rightarrow> Inl e | Inr x \<Rightarrow> f x)"

text \<open>
  The values Pillow stores under a tag of the GPS directory: a number (an integer, a
  float or a rational with non-zero denominator), a string, a byte string, or a tuple
  of numbers. A top-level EXIF entry is such a value or a nested directory (the
  \<open>GPSInfo\<close> entry), a dictionary keyed by integer tag ids in insertion order.
\<close>

datatype gpsval = GNum real | GStr string | GBytes "nat list" | GTuple "real list"

datatype exifval = Val gpsval | Ifd "(nat \<times> gpsval) list"

text \<open>What \<open>dms[i]\<close> yields: a number, or a one-character string.\<close>

datatype elem = ENum real | EChar char

text \<open>\<open>d.get(k)\<close> on a dictionary kept as an association list: \<open>None\<close> when absent.\<close>

definition dict_get :: "('k \<times> 'v) list \<Rightarrow> 'k \<Rightarrow> 'v option" where
  "dict_get d k = map_of d k"

text \<open>
  The dictionary comprehension \<^verbatim>\<open>{NAMES[k]: v for k, v in d.items() if k in NAMES}\<close>:
  entries are visited in order; a name seen again keeps its place and takes the later value.
\<close>

fun rename_keys :: "(nat \<Rightarrow> string option) \<Rightarrow> (nat \<times> 'v) list \<Rightarrow> (string \<times> 'v) list
    \<Rightarrow> (string \<times> 'v) list" where
  "rename_keys names [] acc = acc"
| "rename_keys names ((k, v) # kvs) acc =
     (case names k of
        None \<Rightarrow> rename_keys names kvs acc
      | Some n \<Rightarrow> rename_keys names kvs (AList.update n v acc))"

section \<open>CoordinateConverter: \<open>get_image_coords\<close>\<close>

text \<open>\<open>dms[i]\<close> for a constant index \<open>i \<ge> 0\<close>, on the value \<open>coords_data.get(...)\<close>.\<close>

fun py_index :: "gpsval option \<Rightarrow> nat \<Rightarrow> error + elem" where
  "py_index None i = Inl TypeError"
| "py_index (Some (GNum r)) i = Inl TypeError"
| "py_index (Some (GStr s)) i = (if i < length s then Inr (EChar (s ! i)) else Inl IndexError)"
| "py_index (Some (GBytes b)) i = (if i < length b then Inr (ENum (real (b ! i))) else Inl IndexError)"
| "py_index (Some (GTuple t)) i = (if i < length t then Inr (ENum (t ! i)) else Inl IndexError)"

definition is_digit :: "char \<Rightarrow> bool" where
  "is_digit c = (48 \<le> (of_char c :: nat) \<and> (of_char c :: nat) \<le> 57)"

definition digit_val :: "char \<Rightarrow> nat" where
  "digit_val c = of_char c - 48"

text \<open>\<open>float(x)\<close>: a one-character string converts exactly when it is a decimal digit.\<close>

fun py_float :: "elem \<Rightarrow> error + real" where
  "py_float (ENum r) = Inr r"
| "py_float (EChar c) = (if is_digit c then Inr (real (digit_val c)) else Inl ValueError)"

text \<open>
  \<^verbatim>\<open>dms_to_decimal = lambda dms: float(dms[0]) + float(dms[1]) / 60 + float(dms[2]) / 3600\<close>,
  evaluated left to right.
\<close>

definition dms_to_decimal :: "gpsval option \<Rightarrow> error + real" where
  "dms_to_decimal dms =
     bind_err (bind_err (py_index dms 0) py_float) (\<lambda>d.
     bind_err (bind_err (py_index dms 1) py_float) (\<lambda>m.
     bind_err (bind_err (py_index dms 2) py_float) (\<lambda>s.
     Inr (d + m / 60 + s / 3600))))"

text \<open>\<open>round(x)\<close> with one argument: to the nearest integer, a tie to the even one.\<close>

definition round_half_even :: "real \<Rightarrow> int" where
  "round_half_even x =
     (let f = \<lfloor>x\<rfloor>; d = x - of_int f
      in if d < 1 / 2 then f else if 1 / 2 < d then f + 1 else if even f then f else f + 1)"

fun py_round :: "gpsval option \<Rightarrow> error + int" where
  "py_round (Some (GNum r)) = Inr (round_half_even r)"
| "py_round _ = Inl TypeError"

definition coords_data_of :: "(nat \<Rightarrow> string option) \<Rightarrow> (nat \<times> gpsval) list \<Rightarrow> (string \<times> gpsval) list" where
  "coords_data_of GPSTAGS items = rename_keys GPSTAGS items []"

text \<open>
  \<open>get_image_coords\<close>. \<open>GPSTAGS\<close> is Pillow's table \<^verbatim>\<open>ExifTags.GPSTAGS\<close>, a
  parameter here. \<open>lat\<close>, \<open>lon\<close> and \<open>alt\<close> are bound only inside
  \<^verbatim>\<open>if coords_data:\<close>, so the \<^verbatim>\<open>return\<close> raises when the branch was skipped.
\<close>

definition get_image_coords :: "(nat \<Rightarrow> string option) \<Rightarrow> exifval \<Rightarrow> error + (real \<times> real \<times> int)" where
  "get_image_coords GPSTAGS gps_info =
     (case gps_info of
        Val v \<Rightarrow> Inl AttributeError
      | Ifd items \<Rightarrow>
          (let coords_data = coords_data_of GPSTAGS items in
           if coords_data \<noteq> [] then
             bind_err (dms_to_decimal (dict_get coords_data ''GPSLatitude'')) (\<lambda>lat.
             bind_err (dms_to_decimal (dict_get coords_data ''GPSLongitude'')) (\<lambda>lon.
             bind_err (py_round (dict_get coords_data ''GPSAltitude'')) (\<lambda>alt.
             let lat' = (if dict_get coords_data ''GPSLatitudeRef'' \<noteq> Some (GStr ''N'')
                         then lat * (- 1) else lat);
                 lon' = (if dict_get coords_data ''GPSLongitudeRef'' \<noteq> Some (GStr ''E'')
                         then lon * (- 1) else lon)
             in Inr (lat', lon', alt))))
           else Inl UnboundLocalError))"

text \<open>Pillow's table \<^verbatim>\<open>ExifTags.GPSTAGS\<close>, used where a concrete table is needed.\<close>

definition gps_tags :: "nat \<Rightarrow> string option" where
  "gps_tags = map_of
     [(0, ''GPSVersionID''), (1, ''GPSLatitudeRef''), (2, ''GPSLatitude''),
      (3, ''GPSLongitudeRef''), (4, ''GPSLongitude''), (5, ''GPSAltitudeRef''),
      (6, ''GPSAltitude''), (7, ''GPSTimeStamp''), (8, ''GPSSatellites''),
      (9, ''GPSStatus''), (10, ''GPSMeasureMode''), (11, ''GPSDOP''),
      (12, ''GPSSpeedRef''), (13, ''GPSSpeed''), (14, ''GPSTrackRef''),
      (15, ''GPSTrack''), (16, ''GPSImgDirectionRef''), (17, ''GPSImgDirection''),
      (18, ''GPSMapDatum''), (19, ''GPSDestLatitudeRef''), (20, ''GPSDestLatitude''),
      (21, ''GPSDestLongitudeRef''), (22, ''GPSDestLongitude''), (23, ''GPSDestBearingRef''),
      (24, ''GPSDestBearing''), (25, ''GPSDestDistanceRef''), (26, ''GPSDestDistance''),
      (27, ''GPSProcessingMethod''), (28, ''GPSAreaInformation''), (29, ''GPSDateStamp''),
      (30, ''GPSDifferential''), (31, ''GPSHPositioningError'')]"

text \<open>A sample GPS block, for the southern hemisphere.\<close>

definition gps_paris_south :: "(nat \<times> gpsval) list" where
  "gps_paris_south =
     [(1, GStr ''S''), (2, GTuple [48, 51, 30]), (3, GStr ''E''), (4, GTuple [2, 17, 40]),
      (5, GBytes [0]), (6, GNum (71 / 2))]"

text \<open>A sample GPS block of the northern hemisphere that records no altitude.\<close>

definition gps_paris_no_altitude :: "(nat \<times> gpsval) list" where
  "gps_paris_no_altitude =
     [(1, GStr ''N''), (2, GTuple [48, 51, 30]), (3, GStr ''E''), (4, GTuple [2, 17, 40])]"

section \<open>MetadataExtractor: \<open>parse_image_data\<close> and \<open>get_image_date\<close>\<close>

text \<open>
  \<open>parse_image_data\<close>. \<open>exif\<close> is what \<^verbatim>\<open>image_obj._getexif()\<close> returned: \<open>None\<close>
  or a dictionary keyed by tag id; \<open>TAGS\<close> is Pillow's table \<^verbatim>\<open>ExifTags.TAGS\<close>.
\<close>

definition parse_image_data :: "(nat \<Rightarrow> string option) \<Rightarrow> (nat \<times> exifval) list option
    \<Rightarrow> (string \<times> exifval) list" where
  "parse_image_data TAGS exif =
     (case exif of
        None \<Rightarrow> []
      | Some items \<Rightarrow> if items = [] then [] else rename_keys TAGS items [])"

text \<open>An excerpt of \<^verbatim>\<open>ExifTags.TAGS\<close>, used where a concrete table is needed.\<close>

definition exif_tags :: "nat \<Rightarrow> string option" where
  "exif_tags = map_of
     [(271, ''Make''), (272, ''Model''), (274, ''Orientation''), (306, ''DateTime''),
      (34853, ''GPSInfo''), (36867, ''DateTimeOriginal''), (36868, ''DateTimeDigitized'')]"

text \<open>Truth value of an EXIF value or of \<open>None\<close>, as \<^verbatim>\<open>if x:\<close> tests it.\<close>

fun truthy :: "exifval option \<Rightarrow> bool" where
  "truthy None = False"
| "truthy (Some (Val (GNum r))) = (r \<noteq> 0)"
| "truthy (Some (Val (GStr s))) = (s \<noteq> [])"
| "truthy (Some (Val (GBytes b))) = (b \<noteq> [])"
| "truthy (Some (Val (GTuple t))) = (t \<noteq> [])"
| "truthy (Some (Ifd d)) = (d \<noteq> [])"

subsection \<open>\<open>datetime\<close>, \<open>strptime\<close> and \<open>strftime\<close>\<close>

text \<open>
  A \<open>datetime\<close> to the second. The constructor accepts years 1 to 9999, a day that
  exists in the month, and a time of day below 24:00:00; anything else is a
  \<open>ValueError\<close>.
\<close>

record datetime =
  year :: nat
  month :: nat
  day :: nat
  hour :: nat
  minute :: nat
  second :: nat

definition is_leap :: "nat \<Rightarrow> bool" where
  "is_leap y = (y mod 4 = 0 \<and> (y mod 100 \<noteq> 0 \<or> y mod 400 = 0))"

definition days_in_month :: "nat \<Rightarrow> nat \<Rightarrow> nat" where
  "days_in_month y m =
     (if m = 2 then (if is_leap y then 29 else 28)
      else if m = 4 \<or> m = 6 \<or> m = 9 \<or> m = 11 then 30 else 31)"

definition valid_datetime :: "nat \<Rightarrow> nat \<Rightarrow> nat \<Rightarrow> nat \<Rightarrow> nat \<Rightarrow> nat \<Rightarrow> bool" where
  "valid_datetime y mo d h mi s =
     (1 \<le> y \<and> y \<le> 9999 \<and> 1 \<le> mo \<and> mo \<le> 12 \<and> 1 \<le> d \<and> d \<le> days_in_month y mo
      \<and> h \<le> 23 \<and> mi \<le> 59 \<and> s \<le> 59)"

definition mk_datetime :: "nat \<Rightarrow> nat \<Rightarrow> nat \<Rightarrow> nat \<Rightarrow> nat \<Rightarrow> nat \<Rightarrow> error + datetime" where
  "mk_datetime y mo d h mi s =
     (if valid_datetime y mo d h mi s
      then Inr \<lparr>year = y, month = mo, day = d, hour = h, minute = mi, second = s\<rparr>
      else Inl ValueError)"

text \<open>
  \<^verbatim>\<open>datetime.strptime(s, "%Y:%m:%d %H:%M:%S")\<close>. CPython turns the format into a
  regular expression, matches it at the start of the string, and then requires that
  the match consumed the whole string. A parser returns its candidate matches in the
  order in which the regular expression tries them: the first complete one is the match.

  The directives are \<^verbatim>\<open>%Y = \d\d\d\d\<close>, \<^verbatim>\<open>%m = 1[0-2]|0[1-9]|[1-9]\<close>,
  \<^verbatim>\<open>%d = 3[0-1]|[1-2]\d|0[1-9]|[1-9]| [1-9]\<close>, \<^verbatim>\<open>%H = 2[0-3]|[0-1]\d|\d\<close>,
  \<^verbatim>\<open>%M = [0-5]\d|\d\<close> and \<^verbatim>\<open>%S = 6[0-1]|[0-5]\d|\d\<close>; the blank of the format
  is \<^verbatim>\<open>\s+\<close>. The two-digit alternatives of a directive are exactly the two-digit
  numerals in a range, and come before the one-digit alternative.
\<close>

type_synonym 'a parser = "string \<Rightarrow> ('a \<times> string) list"

definition two_digits :: "nat \<Rightarrow> nat \<Rightarrow> nat parser" where
  "two_digits lo hi s =
     (case s of
        c1 # c2 # rest \<Rightarrow>
          (let v = 10 * digit_val c1 + digit_val c2
           in if is_digit c1 \<and> is_digit c2 \<and> lo \<le> v \<and> v \<le> hi then [(v, rest)] else [])
      | _ \<Rightarrow> [])"

definition one_digit :: "nat \<Rightarrow> nat parser" where
  "one_digit lo s =
     (case s of
        c # rest \<Rightarrow> if is_digit c \<and> lo \<le> digit_val c then [(digit_val c, rest)] else []
      | [] \<Rightarrow> [])"

definition blank_digit :: "nat parser" where
  "blank_digit s =
     (case s of
        b # c # rest \<Rightarrow>
          if b = CHR '' '' \<and> is_digit c \<and> 1 \<le> digit_val c then [(digit_val c, rest)] else []
      | _ \<Rightarrow> [])"

definition four_digits :: "nat parser" where
  "four_digits s =
     (case s of
        c1 # c2 # c3 # c4 # rest \<Rightarrow>
          if is_digit c1 \<and> is_digit c2 \<and> is_digit c3 \<and> is_digit c4
          then [(1000 * digit_val c1 + 100 * digit_val c2 + 10 * digit_val c3 + digit_val c4, rest)]
          else []
      | _ \<Rightarrow> [])"

definition re_Y :: "nat parser" where "re_Y = four_digits"
definition re_m :: "nat parser" where "re_m s = two_digits 1 12 s @ one_digit 1 s"
definition re_d :: "nat parser" where "re_d s = two_digits 1 31 s @ one_digit 1 s @ blank_digit s"
definition re_H :: "nat parser" where "re_H s = two_digits 0 23 s @ one_digit 0 s"
definition re_M :: "nat parser" where "re_M s = two_digits 0 59 s @ one_digit 0 s"
definition re_S :: "nat parser" where "re_S s = two_digits 0 61 s @ one_digit 0 s"

definition lit :: "char \<Rightarrow> unit parser" where
  "lit c s = (case s of x # rest \<Rightarrow> if x = c then [((), rest)] else [] | [] \<Rightarrow> [])"

text \<open>Characters below 256 that \<^verbatim>\<open>\s\<close> matches in a \<open>str\<close> pattern.\<close>

definition is_space :: "char \<Rightarrow> bool" where
  "is_space c =
     (let n = (of_char c :: nat)
      in (9 \<le> n \<and> n \<le> 13) \<or> (28 \<le> n \<and> n \<le> 32) \<or> n = 133 \<or> n = 160)"

text \<open>\<^verbatim>\<open>\s+\<close> is greedy: the longest run first, then each shorter one.\<close>

fun re_blanks :: "unit parser" where
  "re_blanks [] = []"
| "re_blanks (c # rest) = (if is_space c then re_blanks rest @ [((), rest)] else [])"

definition seq :: "'a parser \<Rightarrow> ('a \<Rightarrow> 'b parser) \<Rightarrow> 'b parser" where
  "seq p f s = concat (map (\<lambda>(a, rest). f a rest) (p s))"

definition ret :: "'a \<Rightarrow> 'a parser" where
  "ret a s = [(a, s)]"

definition re_exif_date :: "(nat \<times> nat \<times> nat \<times> nat \<times> nat \<times> nat) parser" where
  "re_exif_date =
     seq re_Y (\<lambda>y. seq (lit CHR '':'') (\<lambda>_.
     seq re_m (\<lambda>mo. seq (lit CHR '':'') (\<lambda>_.
     seq re_d (\<lambda>d. seq re_blanks (\<lambda>_.
     seq re_H (\<lambda>h. seq (lit CHR '':'') (\<lambda>_.
     seq re_M (\<lambda>mi. seq (lit CHR '':'') (\<lambda>_.
     seq re_S (\<lambda>s. ret (y, mo, d, h, mi, s))))))))))))"

definition strptime :: "string \<Rightarrow> error + datetime" where
  "strptime data_string =
     (case re_exif_date data_string of
        [] \<Rightarrow> Inl ValueError
      | ((y, mo, d, h, mi, s), rest) # _ \<Rightarrow>
          if rest \<noteq> [] then Inl ValueError else mk_datetime y mo d h mi s)"

text \<open>
  \<^verbatim>\<open>date.strftime("%d/%m/%Y %H:%M:%S")\<close>. CPython hands the format to the C
  library's \<open>strftime\<close>: day, month, hour, minute and second are zero-padded to two
  digits, and \<^verbatim>\<open>%Y\<close> is the year in decimal with no padding, as glibc prints it
  (CPython 3.11 on Linux), so a year below 1000 has fewer than four digits.
\<close>

definition digit_char :: "nat \<Rightarrow> char" where
  "digit_char n = char_of (48 + n)"

fun str_nat :: "nat \<Rightarrow> string" where
  "str_nat n = (if n < 10 then [digit_char n] else str_nat (n div 10) @ [digit_char (n mod 10)])"

declare str_nat.simps [simp del]

definition zfill :: "nat \<Rightarrow> string \<Rightarrow> string" where
  "zfill w s = replicate (w - length s) CHR ''0'' @ s"

definition strftime :: "datetime \<Rightarrow> string" where
  "strftime dt =
     zfill 2 (str_nat (day dt)) @ ''/'' @ zfill 2 (str_nat (month dt)) @ ''/''
     @ str_nat (year dt) @ '' '' @ zfill 2 (str_nat (hour dt)) @ '':''
     @ zfill 2 (str_nat (minute dt)) @ '':'' @ zfill 2 (str_nat (second dt))"

text \<open>
  \<open>get_image_date\<close>. \<open>image_date\<close> is the value of
  \<^verbatim>\<open>image_data.get("DateTimeOriginal", image_data.get("DateTime"))\<close>; \<open>file_mtime\<close> is
  \<^verbatim>\<open>datetime.fromtimestamp(os.stat(image_path).st_mtime)\<close>, which the file system
  decides (or fails).
\<close>

definition get_image_date :: "(string \<Rightarrow> error + datetime) \<Rightarrow> string \<Rightarrow> exifval option \<Rightarrow> error + string" where
  "get_image_date file_mtime image_path image_date =
     bind_err
       (if truthy image_date then
          (case image_date of
             Some (Val (GStr s)) \<Rightarrow> strptime s
           | _ \<Rightarrow> Inl TypeError)
        else file_mtime image_path)
       (\<lambda>date. Inr (strftime date))"

text \<open>A file whose last modification was on 2 January 2020 at 03:04:05.\<close>

definition mtime_2020 :: "string \<Rightarrow> error + datetime" where
  "mtime_2020 path = Inr \<lparr>year = 2020, month = 1, day = 2, hour = 3, minute = 4, second = 5\<rparr>"

section \<open>Renderer: \<open>Image.thumbnail\<close>\<close>

text \<open>
  \<^verbatim>\<open>image.thumbnail((self.screen_w, self.screen_h), Image.Resampling.LANCZOS)\<close>. The
  size Pillow gives the image is computed by \<open>preserve_aspect_ratio\<close> inside
  \<open>thumbnail\<close> (Pillow 9.1 and later, where \<open>Image.Resampling\<close> exists): nothing
  changes when the requested size covers the image; otherwise one side takes the
  requested length and the other is the floor or the ceiling of the proportional
  length, whichever keeps the ratio closer, and at least 1. \<open>min(a, b, key=k)\<close>
  returns \<open>a\<close> unless \<open>k(b) < k(a)\<close>. A true division by zero raises.
\<close>

definition round_aspect :: "real \<Rightarrow> (int \<Rightarrow> real) \<Rightarrow> int" where
  "round_aspect number key =
     max (if key \<lceil>number\<rceil> < key \<lfloor>number\<rfloor> then \<lceil>number\<rceil> else \<lfloor>number\<rfloor>) 1"

definition thumbnail :: "int \<times> int \<Rightarrow> int \<times> int \<Rightarrow> error + (int \<times> int)" where
  "thumbnail provided_size img_size =
     (let (x, y) = provided_size; (width, height) = img_size in
      if x \<ge> width \<and> y \<ge> height then Inr (width, height)
      else if height = 0 \<or> y = 0 then Inl ZeroDivisionError
      else
        (let aspect = real_of_int width / real_of_int height in
         if real_of_int x / real_of_int y \<ge> aspect then
           Inr (round_aspect (real_of_int y * aspect)
                  (\<lambda>n. \<bar>aspect - real_of_int n / real_of_int y\<bar>), y)
         else if aspect = 0 then Inl ZeroDivisionError
         else
           Inr (x, round_aspect (real_of_int x / aspect)
                     (\<lambda>n. if n = 0 then 0 else \<bar>aspect - real_of_int x / real_of_int n\<bar>))))"

section \<open>ImageSequencer: \<open>get_images\<close> and the cursor\<close>

text \<open>
  The window object. \<open>screen_w\<close> and \<open>screen_h\<close> are what \<^verbatim>\<open>winfo_screenwidth()\<close>
  and \<^verbatim>\<open>winfo_screenheight()\<close> returned, \<open>current_image\<close> holds the size of the
  \<^verbatim>\<open>PhotoImage\<close> on display, \<open>canvas\<close> the items drawn, and \<open>timers\<close> the delays
  in milliseconds of the pending \<^verbatim>\<open>self.after(ms, self.start_slideshow)\<close> calls,
  oldest first.
\<close>

datatype canvas_item =
    CanvasImage real real string "int \<times> int"
  | CanvasText int int "string option" string "string \<times> nat" string

record slideshow =
  directory :: string
  screen_w :: int
  screen_h :: int
  image_list :: "string list"
  current_image :: "(int \<times> int) option"
  current_id :: nat
  canvas :: "canvas_item list"
  timers :: "int list"

text \<open>
  \<^verbatim>\<open>file.lower().endswith(x)\<close> for one of the four extensions; file names are taken
  as ASCII. \<^verbatim>\<open>os.path.join\<close> is the POSIX one.
\<close>

definition lower_char :: "char \<Rightarrow> char" where
  "lower_char c =
     (if 65 \<le> (of_char c :: nat) \<and> (of_char c :: nat) \<le> 90 then char_of ((of_char c :: nat) + 32) else c)"

definition lower :: "string \<Rightarrow> string" where
  "lower s = map lower_char s"

definition endswith :: "string \<Rightarrow> string \<Rightarrow> bool" where
  "endswith s x = (length x \<le> length s \<and> drop (length s - length x) s = x)"

definition is_image_file :: "string \<Rightarrow> bool" where
  "is_image_file file = list_ex (\<lambda>x. endswith (lower file) x) [''.jpg'', ''.jpeg'', ''.png'', ''.gif'']"

definition path_join :: "string \<Rightarrow> string \<Rightarrow> string" where
  "path_join a b =
     (if b \<noteq> [] \<and> hd b = CHR ''/'' then b
      else if a = [] \<or> last a = CHR ''/'' then a @ b
      else a @ ''/'' @ b)"

text \<open>
  The two nested loops of \<open>get_images\<close> over what \<^verbatim>\<open>os.walk\<close> yields (triples of a
  directory, its subdirectories and its files), appending to the list.
\<close>

definition collect_files :: "string \<Rightarrow> string list \<Rightarrow> string list \<Rightarrow> string list" where
  "collect_files dirpath files acc =
     foldl (\<lambda>acc file. if is_image_file file then acc @ [path_join dirpath file] else acc) acc files"

definition collect_walk :: "(string \<times> string list \<times> string list) list \<Rightarrow> string list \<Rightarrow> string list" where
  "collect_walk walk acc = foldl (\<lambda>acc (dirpath, dirnames, files). collect_files dirpath files acc) acc walk"

text \<open>
  \<^verbatim>\<open>random.shuffle(x)\<close>: for \<open>i\<close> from \<open>len(x) - 1\<close> down to \<open>1\<close>, draw
  \<open>j = randbelow(i + 1)\<close> and exchange \<open>x[i]\<close> and \<open>x[j]\<close>. Every bound is drawn for
  once in a run, so the generator is the function \<open>randbelow\<close> from the bound to the
  number drawn; the library promises \<open>randbelow n < n\<close>.
\<close>

fun shuffle_from :: "(nat \<Rightarrow> nat) \<Rightarrow> nat \<Rightarrow> 'a list \<Rightarrow> 'a list" where
  "shuffle_from randbelow 0 x = x"
| "shuffle_from randbelow (Suc k) x =
     (let i = Suc k; j = randbelow (i + 1) in shuffle_from randbelow k (x[i := x ! j, j := x ! i]))"

definition shuffle :: "(nat \<Rightarrow> nat) \<Rightarrow> 'a list \<Rightarrow> 'a list" where
  "shuffle randbelow x = shuffle_from randbelow (length x - 1) x"

definition get_images :: "(string \<Rightarrow> (string \<times> string list \<times> string list) list) \<Rightarrow> (nat \<Rightarrow> nat)
    \<Rightarrow> slideshow \<Rightarrow> slideshow" where
  "get_images os_walk randbelow st =
     st\<lparr>image_list := shuffle randbelow (collect_walk (os_walk (directory st)) (image_list st))\<rparr>"

text \<open>
  The first two statements of \<open>start_slideshow\<close>: the image at the cursor, and the
  cursor moved on. Indexing the empty list raises before the modulus is computed.
\<close>

definition select_next :: "slideshow \<Rightarrow> error + (string \<times> slideshow)" where
  "select_next st =
     (if current_id st < length (image_list st)
      then Inr (image_list st ! current_id st,
                st\<lparr>current_id := (current_id st + 1) mod length (image_list st)\<rparr>)
      else Inl IndexError)"

text \<open>\<open>k\<close> selections in a row, with the images selected.\<close>

fun select_many :: "nat \<Rightarrow> slideshow \<Rightarrow> error + (string list \<times> slideshow)" where
  "select_many 0 st = Inr ([], st)"
| "select_many (Suc k) st =
     bind_err (select_next st) (\<lambda>(image, st').
     bind_err (select_many k st') (\<lambda>(images, st'').
     Inr (image # images, st'')))"

section \<open>LocationResolver: \<open>get_image_location\<close>\<close>

text \<open>
  What \<^verbatim>\<open>req.json()\<close> returns: a decoded JSON value, an object being the dictionary
  Python builds from it. Subscripting by a string key and by \<open>0\<close>, and \<open>+\<close> with a
  string on either side, raise as Python does on each kind of value.
\<close>

datatype json = JNull | JBool bool | JNum real | JStr string | JArr "json list"
  | JObj "(string \<times> json) list"

fun json_key :: "json \<Rightarrow> string \<Rightarrow> error + json" where
  "json_key (JObj kvs) k = (case dict_get kvs k of None \<Rightarrow> Inl KeyError | Some v \<Rightarrow> Inr v)"
| "json_key v k = Inl TypeError"

fun json_first :: "json \<Rightarrow> error + json" where
  "json_first (JArr xs) = (case xs of [] \<Rightarrow> Inl IndexError | x # rest \<Rightarrow> Inr x)"
| "json_first (JStr s) = (case s of [] \<Rightarrow> Inl IndexError | c # rest \<Rightarrow> Inr (JStr [c]))"
| "json_first (JObj kvs) = Inl KeyError"
| "json_first v = Inl TypeError"

fun add_str :: "json \<Rightarrow> string \<Rightarrow> error + string" where
  "add_str (JStr s) t = Inr (s @ t)"
| "add_str v t = Inl TypeError"

fun str_add :: "string \<Rightarrow> json \<Rightarrow> error + string" where
  "str_add s (JStr t) = Inr (s @ t)"
| "str_add s v = Inl TypeError"

text \<open>
  The outside world of \<open>show_image\<close>. \<open>image_open\<close> is \<^verbatim>\<open>Image.open\<close>;
  \<open>stat_mtime\<close> is \<^verbatim>\<open>datetime.fromtimestamp(os.stat(path).st_mtime)\<close>; \<open>api_key\<close> is
  \<^verbatim>\<open>os.environ.get("API_KEY")\<close>; \<open>requests_get\<close> is \<^verbatim>\<open>requests.get(url)\<close>, the URL
  being made of the key, the latitude and the longitude: it raises, or gives a
  response whose \<^verbatim>\<open>json()\<close> raises or gives a value. \<open>tags_table\<close> and
  \<open>gpstags_table\<close> are Pillow's \<^verbatim>\<open>ExifTags.TAGS\<close> and \<^verbatim>\<open>ExifTags.GPSTAGS\<close>.
\<close>

record image =
  getexif :: "error + (nat \<times> exifval) list option"
  img_size :: "int \<times> int"

record env =
  image_open :: "string \<Rightarrow> error + image"
  stat_mtime :: "string \<Rightarrow> error + datetime"
  api_key :: "string option"
  requests_get :: "string option \<Rightarrow> real \<Rightarrow> real \<Rightarrow> error + (error + json)"
  tags_table :: "nat \<Rightarrow> string option"
  gpstags_table :: "nat \<Rightarrow> string option"

text \<open>
  \<^verbatim>\<open>req.json()["data"][0]["name"] + ", " + req.json()["data"][0]["locality"]\<close>, evaluated
  from left to right. No failure is caught.
\<close>

definition json_data0 :: "error + json \<Rightarrow> string \<Rightarrow> error + json" where
  "json_data0 body field =
     bind_err body (\<lambda>j. bind_err (json_key j ''data'') (\<lambda>d. bind_err (json_first d) (\<lambda>r.
       json_key r field)))"

definition get_image_location :: "env \<Rightarrow> real \<Rightarrow> real \<Rightarrow> error + string" where
  "get_image_location e lat lon =
     (let key = api_key e in
      bind_err (requests_get e key lat lon) (\<lambda>req.
      bind_err (json_data0 req ''name'') (\<lambda>name.
      bind_err (add_str name '', '') (\<lambda>s.
      bind_err (json_data0 req ''locality'') (\<lambda>locality.
      str_add s locality)))))"

section \<open>SlideshowController: \<open>show_image\<close> and \<open>start_slideshow\<close>\<close>

text \<open>\<^verbatim>\<open>str(n)\<close> of an integer, and \<^verbatim>\<open>filepath.split(os.sep)[-1]\<close> with \<open>/\<close> as separator.\<close>

definition str_int :: "int \<Rightarrow> string" where
  "str_int i = (if i < 0 then CHR ''-'' # str_nat (nat (- i)) else str_nat (nat i))"

definition last_component :: "string \<Rightarrow> string" where
  "last_component filepath = rev (takeWhile (\<lambda>c. c \<noteq> CHR ''/'') (rev filepath))"

text \<open>
  \<^verbatim>\<open>image_data.get("DateTimeOriginal", image_data.get("DateTime"))\<close>.
\<close>

definition dict_get_default :: "('k \<times> 'v) list \<Rightarrow> 'k \<Rightarrow> 'v option \<Rightarrow> 'v option" where
  "dict_get_default d k dflt = (case dict_get d k of Some v \<Rightarrow> Some v | None \<Rightarrow> dflt)"

text \<open>
  The location text of the \<^verbatim>\<open>else\<close> branch: the words \<open>Lieu non defini\<close> with an
  acute accent on the first \<open>e\<close> of the last word (code point 233).
\<close>

definition lieu_non_defini :: string where
  "lieu_non_defini = ''Lieu non d'' @ [char_of (233 :: nat)] @ ''fini''"

text \<open>
  The branch on \<^verbatim>\<open>image_data.get("GPSInfo")\<close>: the coordinates, the altitude text and
  the location text.
\<close>

definition locate :: "env \<Rightarrow> exifval option \<Rightarrow> error + ((real \<times> real \<times> int) \<times> string option \<times> string)" where
  "locate e gps =
     (case gps of
        None \<Rightarrow> Inr ((0, 0, 0), None, lieu_non_defini)
      | Some gps_info \<Rightarrow>
          if truthy gps then
            bind_err (get_image_coords (gpstags_table e) gps_info) (\<lambda>(lat, lon, alt).
            let image_alt = ''Altitude : '' @ str_int alt @ ''m'' in
            bind_err (get_image_location e lat lon) (\<lambda>image_loc.
            Inr ((lat, lon, alt), Some image_alt, image_loc)))
          else Inr ((0, 0, 0), None, lieu_non_defini))"

text \<open>
  \<open>show_image\<close>. The canvas is emptied and gets the image and the four texts: date,
  location, altitude, file name. An altitude text is a non-empty string or \<open>None\<close>.
\<close>

definition show_image :: "env \<Rightarrow> string \<Rightarrow> slideshow \<Rightarrow> error + slideshow" where
  "show_image e filepath st =
     bind_err (image_open e filepath) (\<lambda>image.
     let filename = last_component filepath in
     bind_err (getexif image) (\<lambda>exif.
     let image_data = parse_image_data (tags_table e) exif in
     bind_err (get_image_date (stat_mtime e) filepath
                 (dict_get_default image_data ''DateTimeOriginal'' (dict_get image_data ''DateTime'')))
       (\<lambda>image_date.
     bind_err (locate e (dict_get image_data ''GPSInfo'')) (\<lambda>(image_coords, image_alt, image_loc).
     bind_err (thumbnail (screen_w st, screen_h st) (img_size image)) (\<lambda>new_size.
     Inr (st\<lparr>current_image := Some new_size,
              canvas :=
                [CanvasImage (real_of_int (screen_w st) / 2) (real_of_int (screen_h st) / 2)
                   ''center'' new_size,
                 CanvasText 20 10 (Some image_date) ''white'' (''Ubuntu'', 12) ''nw'',
                 CanvasText 20 (screen_h st - (if image_alt \<noteq> None then 30 else 10))
                   (Some image_loc) ''white'' (''Ubuntu'', 12) ''sw'',
                 CanvasText 20 (screen_h st - 10) image_alt ''white'' (''Ubuntu'', 12) ''sw'',
                 CanvasText (screen_w st - 20) (screen_h st - 10) (Some filename) ''white''
                   (''Ubuntu'', 12) ''se'']\<rparr>))))))"

text \<open>
  \<open>start_slideshow\<close>. A call that raises leaves before \<^verbatim>\<open>self.after\<close> is reached, so
  it registers no timer.
\<close>

definition start_slideshow :: "env \<Rightarrow> int \<Rightarrow> slideshow \<Rightarrow> error + slideshow" where
  "start_slideshow e delay st =
     bind_err (select_next st) (\<lambda>(image, st1).
     bind_err (show_image e image st1) (\<lambda>st2.
     Inr (st2\<lparr>timers := timers st2 @ [delay * 1000]\<rparr>)))"

text \<open>
  The event loop (\<^verbatim>\<open>mainloop\<close>) for \<open>n\<close> timers: it waits for the oldest pending timer
  and calls its callback, \<^verbatim>\<open>self.start_slideshow\<close>, with no argument, so \<open>delay\<close> takes
  its default \<open>4\<close>. The result lists the waits in milliseconds. A callback that raises
  ends the run.
\<close>

fun mainloop :: "env \<Rightarrow> nat \<Rightarrow> slideshow \<Rightarrow> error + (int list \<times> slideshow)" where
  "mainloop e 0 st = Inr ([], st)"
| "mainloop e (Suc n) st =
     (case timers st of
        [] \<Rightarrow> Inr ([], st)
      | ms # rest \<Rightarrow>
          bind_err (start_slideshow e 4 (st\<lparr>timers := rest\<rparr>)) (\<lambda>st'.
          bind_err (mainloop e n st') (\<lambda>(waits, st'').
          Inr (ms # waits, st''))))"

text \<open>
  Sample surroundings: a 1920 by 1080 screen, a directory \<open>img/\<close> with two pictures
  of 800 by 600 that carry no EXIF data, and one picture with the GPS block
  \<open>gps_paris_south\<close>; a network that is down.
\<close>

definition sample_image :: image where
  "sample_image = \<lparr>getexif = Inr None, img_size = (800, 600)\<rparr>"

definition gps_image :: image where
  "gps_image = \<lparr>getexif = Inr (Some [(34853, Ifd gps_paris_south)]), img_size = (800, 600)\<rparr>"

definition sample_env :: env where
  "sample_env =
     \<lparr>image_open = (\<lambda>path. if path = ''img/gps.jpg'' then Inr gps_image else Inr sample_image),
      stat_mtime = mtime_2020,
      api_key = None,
      requests_get = (\<lambda>key lat lon. Inl ConnectionError),
      tags_table = exif_tags, gpstags_table = gps_tags\<rparr>"

definition sample_walk :: "string \<Rightarrow> (string \<times> string list \<times> string list) list" where
  "sample_walk d = (if d = ''img/'' then [(''img/'', [], [''a.jpg'', ''notes.txt'', ''b.PNG''])] else [])"

definition sample_window :: "string list \<Rightarrow> slideshow" where
  "sample_window images =
     \<lparr>directory = ''img/'', screen_w = 1920, screen_h = 1080, image_list = images,
      current_image = None, current_id = 0, canvas = [], timers = []\<rparr>"

text \<open>Replies of the geocoding service, for a network that is up.\<close>

definition env_replying :: "error + json \<Rightarrow> env" where
  "env_replying body = sample_env\<lparr>requests_get := (\<lambda>key lat lon. Inr body)\<rparr>"

section \<open>Properties of the coordinate conversion\<close>

lemma dms_to_decimal_tuple:
  "dms_to_decimal (Some (GTuple (d # m # s # rest))) = Inr (d + m / 60 + s / 3600)"
  by (simp add: dms_to_decimal_def bind_err_def)

text \<open>
  Claim C5. On a degrees-minutes-seconds triple the conversion returns
  \<open>d + m/60 + s/3600\<close>; it maps \<open>(1,0,0)\<close> to \<open>1\<close> and \<open>(0,30,0)\<close> to \<open>1/2\<close>;
  and it is monotonically non-decreasing in each of its three arguments.
\<close>

theorem dms_to_decimal_formula_monotone:
  "dms_to_decimal (Some (GTuple [d, m, s])) = Inr (d + m / 60 + s / 3600)
   \<and> dms_to_decimal (Some (GTuple [1, 0, 0])) = Inr 1
   \<and> dms_to_decimal (Some (GTuple [0, 30, 0])) = Inr (1 / 2)
   \<and> (d \<le> d' \<and> m \<le> m' \<and> s \<le> s' \<longrightarrow>
        (\<exists>a b. dms_to_decimal (Some (GTuple [d, m, s])) = Inr a
             \<and> dms_to_decimal (Some (GTuple [d', m', s'])) = Inr b \<and> a \<le> b))"
proof -
  have mono: "d \<le> d' \<and> m \<le> m' \<and> s \<le> s' \<longrightarrow> d + m / 60 + s / 3600 \<le> d' + m' / 60 + s' / 3600"
    by (simp add: add_mono divide_right_mono)
  show ?thesis
    using mono by (simp add: dms_to_decimal_tuple)
qed

theorem dms_to_decimal_formula_monotone_witness:
  "dms_to_decimal (Some (GTuple [48, 51, 30])) = Inr (48 + 51 / 60 + 30 / 3600)
   \<and> (48::real) \<le> 49 \<and> (51::real) \<le> 51 \<and> (30::real) \<le> 30
   \<and> (\<exists>a b. dms_to_decimal (Some (GTuple [48, 51, 30])) = Inr a
          \<and> dms_to_decimal (Some (GTuple [49, 51, 30])) = Inr b \<and> a \<le> b)"
proof -
  have h: "(48::real) \<le> 49 \<and> (51::real) \<le> 51 \<and> (30::real) \<le> 30"
    by simp
  from dms_to_decimal_formula_monotone [of 48 51 30 49 51 30] h show ?thesis
    by blast
qed

lemma update_not_Nil: "AList.update k v al \<noteq> []"
  by (cases al) auto

lemma rename_keys_Nil_iff:
  "rename_keys names kvs acc = [] \<longleftrightarrow> acc = [] \<and> (\<forall>k \<in> fst ` set kvs. names k = None)"
  by (induction names kvs acc rule: rename_keys.induct) (auto simp: update_not_Nil split: option.splits)

text \<open>
  Claim C6. \<open>get_image_coords\<close> rounds the altitude (\<^verbatim>\<open>round(coords_data.get("GPSAltitude"))\<close>)
  before it looks at the references, so the sign rule holds for the GPS blocks whose
  altitude rounds to some \<open>h\<close>: for such a block whose latitude and longitude convert
  to positive magnitudes \<open>a\<close> and \<open>b\<close>, the latitude is returned negated exactly when
  the latitude reference is not \<open>N\<close> and the longitude negated exactly when the
  longitude reference is not \<open>E\<close>; with reference \<open>N\<close> the latitude stays positive,
  with reference \<open>S\<close> it is negative.
\<close>

theorem get_image_coords_sign:
  assumes cd: "coords_data_of GPSTAGS items = cd" and ne: "cd \<noteq> []"
    and lat: "dms_to_decimal (dict_get cd ''GPSLatitude'') = Inr a"
    and lon: "dms_to_decimal (dict_get cd ''GPSLongitude'') = Inr b"
    and alt: "py_round (dict_get cd ''GPSAltitude'') = Inr h"
    and pos: "0 < a" "0 < b"
  shows "\<exists>lat lon. get_image_coords GPSTAGS (Ifd items) = Inr (lat, lon, h)
     \<and> lat = (if dict_get cd ''GPSLatitudeRef'' \<noteq> Some (GStr ''N'') then - a else a)
     \<and> lon = (if dict_get cd ''GPSLongitudeRef'' \<noteq> Some (GStr ''E'') then - b else b)
     \<and> (lat < 0 \<longleftrightarrow> dict_get cd ''GPSLatitudeRef'' \<noteq> Some (GStr ''N''))
     \<and> (lon < 0 \<longleftrightarrow> dict_get cd ''GPSLongitudeRef'' \<noteq> Some (GStr ''E''))
     \<and> (dict_get cd ''GPSLatitudeRef'' = Some (GStr ''N'') \<longrightarrow> 0 < lat)
     \<and> (dict_get cd ''GPSLatitudeRef'' = Some (GStr ''S'') \<longrightarrow> lat < 0)"
  using assms by (auto simp: get_image_coords_def bind_err_def Let_def)

lemma coords_data_paris:
  "coords_data_of gps_tags gps_paris_south =
     [(''GPSLatitudeRef'', GStr ''S''), (''GPSLatitude'', GTuple [48, 51, 30]),
      (''GPSLongitudeRef'', GStr ''E''), (''GPSLongitude'', GTuple [2, 17, 40]),
      (''GPSAltitudeRef'', GBytes [0]), (''GPSAltitude'', GNum (71 / 2))]"
  by (simp add: coords_data_of_def gps_paris_south_def gps_tags_def)

lemma round_half_even_examples:
  "round_half_even (71 / 2) = 36" "round_half_even (5 / 2) = 2" "round_half_even (-3/2) = -2"
  by (simp_all add: round_half_even_def Let_def)

theorem get_image_coords_sign_witness:
  "get_image_coords gps_tags (Ifd gps_paris_south) = Inr (- (5863 / 120), 413 / 180, 36)"
proof -
  let ?cd = "coords_data_of gps_tags gps_paris_south"
  have ne: "?cd \<noteq> []"
    by (simp add: coords_data_paris)
  have lat: "dms_to_decimal (dict_get ?cd ''GPSLatitude'') = Inr (5863 / 120)"
    by (simp add: coords_data_paris dict_get_def dms_to_decimal_tuple)
  have lon: "dms_to_decimal (dict_get ?cd ''GPSLongitude'') = Inr (413 / 180)"
    by (simp add: coords_data_paris dict_get_def dms_to_decimal_tuple)
  have alt: "py_round (dict_get ?cd ''GPSAltitude'') = Inr 36"
    by (simp add: coords_data_paris dict_get_def round_half_even_examples)
  have ref: "dict_get ?cd ''GPSLatitudeRef'' = Some (GStr ''S'')"
    "dict_get ?cd ''GPSLongitudeRef'' = Some (GStr ''E'')"
    by (simp_all add: coords_data_paris dict_get_def)
  from get_image_coords_sign [OF refl ne lat lon alt] ref show ?thesis
    by auto
qed

text \<open>
  Claim C6, the case the sign rule does not cover: a GPS block with reference \<open>N\<close>
  and positive degrees, minutes and seconds, but no altitude entry. The latitude
  converts to a positive magnitude, yet no latitude is returned: rounding the missing
  altitude raises \<open>TypeError\<close>.
\<close>

theorem get_image_coords_no_altitude_counterexample:
  "dict_get (coords_data_of gps_tags gps_paris_no_altitude) ''GPSLatitudeRef'' = Some (GStr ''N'')
   \<and> dms_to_decimal (dict_get (coords_data_of gps_tags gps_paris_no_altitude) ''GPSLatitude'')
       = Inr (5863 / 120)
   \<and> dms_to_decimal (dict_get (coords_data_of gps_tags gps_paris_no_altitude) ''GPSLongitude'')
       = Inr (413 / 180)
   \<and> get_image_coords gps_tags (Ifd gps_paris_no_altitude) = Inl TypeError"
  by (simp add: coords_data_of_def gps_paris_no_altitude_def gps_tags_def dict_get_def
      dms_to_decimal_tuple get_image_coords_def bind_err_def Let_def)

text \<open>
  Claim C10. When no key of the GPS block is a recognised GPS tag, the filtered mapping
  is empty, the branch that binds \<open>lat\<close>, \<open>lon\<close> and \<open>alt\<close> is skipped, and
  \<open>get_image_coords\<close> fails with an unbound-variable error instead of returning a triple.
\<close>

theorem get_image_coords_unbound:
  "\<forall>k \<in> fst ` set items. GPSTAGS k = None \<Longrightarrow>
     get_image_coords GPSTAGS (Ifd items) = Inl UnboundLocalError"
  by (simp add: get_image_coords_def coords_data_of_def rename_keys_Nil_iff)

theorem get_image_coords_unbound_witness:
  "get_image_coords gps_tags (Ifd [(40000, GNum 1)]) = Inl UnboundLocalError"
  using get_image_coords_unbound [of "[(40000, GNum 1)]" gps_tags]
  by (simp add: gps_tags_def)

section \<open>Properties of the date resolution\<close>

lemma digit_char_simps:
  "digit_char 0 = CHR ''0''" "digit_char 1 = CHR ''1''" "digit_char 2 = CHR ''2''"
  "digit_char 3 = CHR ''3''" "digit_char 4 = CHR ''4''" "digit_char 5 = CHR ''5''"
  "digit_char 6 = CHR ''6''" "digit_char 7 = CHR ''7''" "digit_char 8 = CHR ''8''"
  "digit_char 9 = CHR ''9''" "digit_char (Suc 0) = CHR ''1''"
  by (simp_all add: digit_char_def char_of_def bit_Suc_0_iff)

lemma digit_val_less: "is_digit c \<Longrightarrow> digit_val c < 10"
  by (auto simp: is_digit_def digit_val_def)

lemma digit_char_digit_val: "is_digit c \<Longrightarrow> digit_char (digit_val c) = c"
  by (simp add: is_digit_def digit_val_def digit_char_def)

lemma digit_not_sep:
  "is_digit c \<Longrightarrow> c \<noteq> CHR '':''" "is_digit c \<Longrightarrow> c \<noteq> CHR '' ''" "is_digit c \<Longrightarrow> \<not> is_space c"
  by (auto simp: is_digit_def is_space_def Let_def)

lemma str_nat_digit: "n < 10 \<Longrightarrow> str_nat n = [digit_char n]"
  by (simp add: str_nat.simps)

lemma str_nat_snoc: "0 < n \<Longrightarrow> b < 10 \<Longrightarrow> str_nat (10 * n + b) = str_nat n @ [digit_char b]"
  by (subst str_nat.simps) simp

lemma zfill_snoc:
  assumes "b < 10" "0 < w"
  shows "zfill (Suc w) (str_nat (10 * n + b)) = zfill w (str_nat n) @ [digit_char b]"
proof (cases "n = 0")
  case True
  with assms show ?thesis
    by (cases w) (simp_all add: str_nat_digit zfill_def digit_char_simps replicate_append_same)
next
  case False
  with assms show ?thesis
    by (simp add: str_nat_snoc zfill_def Suc_diff_le)
qed

lemma zfill1_digit: "a < 10 \<Longrightarrow> zfill (Suc 0) (str_nat a) = [digit_char a]"
  by (simp add: str_nat_digit zfill_def)

lemma zfill2_digits:
  assumes "is_digit a" "is_digit b"
  shows "zfill 2 (str_nat (10 * digit_val a + digit_val b)) = [a, b]"
proof -
  have "zfill (Suc (Suc 0)) (str_nat (10 * digit_val a + digit_val b)) = [a, b]"
    using assms by (simp add: zfill_snoc zfill1_digit digit_val_less digit_char_digit_val)
  then show ?thesis
    by (simp add: numeral_2_eq_2)
qed

lemma str_nat4_digits:
  assumes "is_digit a" "is_digit b" "is_digit c" "is_digit d" "a \<noteq> CHR ''0''"
  shows "str_nat (1000 * digit_val a + 100 * digit_val b + 10 * digit_val c + digit_val d)
         = [a, b, c, d]"
proof -
  let ?n2 = "10 * digit_val a + digit_val b"
  let ?n3 = "10 * ?n2 + digit_val c"
  have e: "1000 * digit_val a + 100 * digit_val b + 10 * digit_val c + digit_val d
         = 10 * ?n3 + digit_val d"
    by simp
  have pos: "0 < digit_val a"
    using assms(1,5) digit_char_digit_val [of a] by (cases "digit_val a = 0") (auto simp: digit_char_simps)
  have s1: "str_nat (digit_val a) = [a]"
    using assms(1) by (simp add: str_nat_digit digit_val_less digit_char_digit_val)
  have s2: "str_nat ?n2 = [a, b]"
    using str_nat_snoc [of "digit_val a" "digit_val b"] pos assms(2) s1
    by (simp add: digit_val_less digit_char_digit_val)
  have s3: "str_nat ?n3 = [a, b, c]"
    using str_nat_snoc [of ?n2 "digit_val c"] pos assms(3) s2
    by (simp add: digit_val_less digit_char_digit_val)
  have s4: "str_nat (10 * ?n3 + digit_val d) = [a, b, c, d]"
    using str_nat_snoc [of ?n3 "digit_val d"] pos assms(4) s3
    by (simp add: digit_val_less digit_char_digit_val)
  show ?thesis
    unfolding e by (rule s4)
qed

lemma days_in_month_le: "days_in_month y m \<le> 31"
  by (simp add: days_in_month_def)

lemma two_digits_ok:
  "is_digit c1 \<Longrightarrow> is_digit c2 \<Longrightarrow> lo \<le> 10 * digit_val c1 + digit_val c2 \<Longrightarrow>
   10 * digit_val c1 + digit_val c2 \<le> hi \<Longrightarrow>
   two_digits lo hi (c1 # c2 # rest) = [(10 * digit_val c1 + digit_val c2, rest)]"
  by (simp add: two_digits_def)

lemma one_digit_then_colon:
  "is_digit c2 \<Longrightarrow> seq (one_digit lo) (\<lambda>v. seq (lit CHR '':'') (f v)) (c1 # c2 # rest) = []"
  by (simp add: seq_def one_digit_def lit_def digit_not_sep)

lemma one_digit_then_blanks:
  "is_digit c2 \<Longrightarrow> seq (one_digit lo) (\<lambda>v. seq re_blanks (f v)) (c1 # c2 # rest) = []"
  by (simp add: seq_def one_digit_def digit_not_sep)

lemma blank_digit_on_digit: "is_digit c1 \<Longrightarrow> blank_digit (c1 # rest) = []"
  by (simp add: blank_digit_def digit_not_sep split: list.splits)

lemma seq_append: "seq (\<lambda>s. p s @ q s) f s = seq p f s @ seq q f s"
  by (simp add: seq_def)

lemma seq_two_digits:
  "is_digit c1 \<Longrightarrow> is_digit c2 \<Longrightarrow> lo \<le> 10 * digit_val c1 + digit_val c2 \<Longrightarrow>
   10 * digit_val c1 + digit_val c2 \<le> hi \<Longrightarrow>
   seq (two_digits lo hi) f (c1 # c2 # rest) = f (10 * digit_val c1 + digit_val c2) rest"
  by (simp add: seq_def two_digits_ok)

lemma seq_four_digits:
  "is_digit c1 \<Longrightarrow> is_digit c2 \<Longrightarrow> is_digit c3 \<Longrightarrow> is_digit c4 \<Longrightarrow>
   seq four_digits f (c1 # c2 # c3 # c4 # rest)
   = f (1000 * digit_val c1 + 100 * digit_val c2 + 10 * digit_val c3 + digit_val c4) rest"
  by (simp add: seq_def four_digits_def)

lemma seq_lit: "seq (lit c) f (c # rest) = f () rest"
  by (simp add: seq_def lit_def)

lemma is_space_blank: "is_space CHR '' ''"
  by (simp add: is_space_def)

lemma seq_blanks_one: "is_digit c \<Longrightarrow> seq re_blanks f (CHR '' '' # c # rest) = f () (c # rest)"
  by (simp add: seq_def digit_not_sep is_space_blank)

lemma re_unfold:
  "re_m = (\<lambda>s. two_digits 1 12 s @ one_digit 1 s)"
  "re_d = (\<lambda>s. two_digits 1 31 s @ (one_digit 1 s @ blank_digit s))"
  "re_H = (\<lambda>s. two_digits 0 23 s @ one_digit 0 s)"
  "re_M = (\<lambda>s. two_digits 0 59 s @ one_digit 0 s)"
  "re_S = (\<lambda>s. two_digits 0 61 s @ one_digit 0 s)"
  by (auto simp: re_m_def re_d_def re_H_def re_M_def re_S_def)

lemma seq_blank_digit_on_digit: "is_digit c1 \<Longrightarrow> seq blank_digit f (c1 # rest) = []"
  by (simp add: seq_def blank_digit_on_digit)

lemma strptime_exif:
  assumes dg: "is_digit y1" "is_digit y2" "is_digit y3" "is_digit y4" "is_digit m1" "is_digit m2"
      "is_digit d1" "is_digit d2" "is_digit h1" "is_digit h2" "is_digit n1" "is_digit n2"
      "is_digit s1" "is_digit s2"
    and valid: "valid_datetime
       (1000 * digit_val y1 + 100 * digit_val y2 + 10 * digit_val y3 + digit_val y4)
       (10 * digit_val m1 + digit_val m2) (10 * digit_val d1 + digit_val d2)
       (10 * digit_val h1 + digit_val h2) (10 * digit_val n1 + digit_val n2)
       (10 * digit_val s1 + digit_val s2)"
  shows "strptime [y1, y2, y3, y4, CHR '':'', m1, m2, CHR '':'', d1, d2, CHR '' '',
                   h1, h2, CHR '':'', n1, n2, CHR '':'', s1, s2]
         = Inr \<lparr>year = 1000 * digit_val y1 + 100 * digit_val y2 + 10 * digit_val y3 + digit_val y4,
                month = 10 * digit_val m1 + digit_val m2, day = 10 * digit_val d1 + digit_val d2,
                hour = 10 * digit_val h1 + digit_val h2, minute = 10 * digit_val n1 + digit_val n2,
                second = 10 * digit_val s1 + digit_val s2\<rparr>"
proof -
  let ?Y = "1000 * digit_val y1 + 100 * digit_val y2 + 10 * digit_val y3 + digit_val y4"
  let ?m = "10 * digit_val m1 + digit_val m2" and ?d = "10 * digit_val d1 + digit_val d2"
  let ?H = "10 * digit_val h1 + digit_val h2" and ?M = "10 * digit_val n1 + digit_val n2"
  let ?S = "10 * digit_val s1 + digit_val s2"
  from valid have rng: "1 \<le> ?m" "?m \<le> 12" "1 \<le> ?d" "?d \<le> 31" "?H \<le> 23" "?M \<le> 59" "?S \<le> 61"
    using days_in_month_le [of ?Y ?m] by (auto simp: valid_datetime_def)
  have "\<exists>more. re_exif_date [y1, y2, y3, y4, CHR '':'', m1, m2, CHR '':'', d1, d2, CHR '' '',
                   h1, h2, CHR '':'', n1, n2, CHR '':'', s1, s2]
        = ((?Y, ?m, ?d, ?H, ?M, ?S), []) # more"
    unfolding re_exif_date_def re_unfold re_Y_def
    using dg rng
    by (simp add: seq_append seq_four_digits seq_two_digits seq_lit seq_blanks_one
        one_digit_then_colon one_digit_then_blanks seq_blank_digit_on_digit ret_def)
  then show ?thesis
    using valid by (auto simp: strptime_def mk_datetime_def)
qed

lemma zfill_step:
  "0 < w \<Longrightarrow> zfill (Suc w) (str_nat n) = zfill w (str_nat (n div 10)) @ [digit_char (n mod 10)]"
  using zfill_snoc [of "n mod 10" w "n div 10"] by simp

lemma zfill2_nat:
  assumes "n < 100"
  shows "zfill 2 (str_nat n) = [digit_char (n div 10), digit_char (n mod 10)]"
proof -
  have "n div 10 < 10"
    using assms by simp
  then have "zfill (Suc (Suc 0)) (str_nat n) = [digit_char (n div 10), digit_char (n mod 10)]"
    by (simp add: zfill_step zfill1_digit)
  then show ?thesis
    by (simp add: numeral_2_eq_2)
qed

lemma str_nat_step: "10 \<le> n \<Longrightarrow> str_nat n = str_nat (n div 10) @ [digit_char (n mod 10)]"
  by (subst str_nat.simps) simp

lemma str_nat4_nat:
  assumes "1000 \<le> n" "n < 10000"
  shows "str_nat n = [digit_char (n div 1000), digit_char (n div 100 mod 10),
                      digit_char (n div 10 mod 10), digit_char (n mod 10)]"
proof -
  have e100: "n div 10 div 10 = n div 100"
    using div_mult2_eq [of n 10 10] by simp
  have e1000: "n div 100 div 10 = n div 1000"
    using div_mult2_eq [of n 100 10] by simp
  have b: "10 \<le> n" "10 \<le> n div 10" "10 \<le> n div 100" "n div 1000 < 10"
    using assms by simp_all
  have s1: "str_nat n = str_nat (n div 10) @ [digit_char (n mod 10)]"
    using b(1) by (rule str_nat_step)
  have s2: "str_nat (n div 10) = str_nat (n div 100) @ [digit_char (n div 10 mod 10)]"
    using str_nat_step [OF b(2)] by (simp only: e100)
  have s3: "str_nat (n div 100) = str_nat (n div 1000) @ [digit_char (n div 100 mod 10)]"
    using str_nat_step [OF b(3)] by (simp only: e1000)
  have s4: "str_nat (n div 1000) = [digit_char (n div 1000)]"
    using b(4) by (rule str_nat_digit)
  show ?thesis
    by (simp only: s1 s2 s3 s4 append.simps)
qed

lemma get_image_date_example:
  "get_image_date file_mtime p (Some (Val (GStr ''2021:05:10 14:30:00''))) = Inr ''10/05/2021 14:30:00''"
  by (simp add: get_image_date_def bind_err_def strptime_def re_exif_date_def seq_def ret_def
      re_Y_def re_m_def re_d_def re_H_def re_M_def re_S_def four_digits_def two_digits_def
      one_digit_def blank_digit_def lit_def is_space_def is_digit_def digit_val_def
      mk_datetime_def valid_datetime_def days_in_month_def is_leap_def strftime_def zfill_def
      str_nat.simps digit_char_simps Let_def)

lemma strftime_shape:
  assumes "valid_datetime (year dt) (month dt) (day dt) (hour dt) (minute dt) (second dt)"
    and "1000 \<le> year dt"
  shows "strftime dt =
     [digit_char (day dt div 10), digit_char (day dt mod 10), CHR ''/'',
      digit_char (month dt div 10), digit_char (month dt mod 10), CHR ''/'',
      digit_char (year dt div 1000), digit_char (year dt div 100 mod 10),
      digit_char (year dt div 10 mod 10), digit_char (year dt mod 10), CHR '' '',
      digit_char (hour dt div 10), digit_char (hour dt mod 10), CHR '':'',
      digit_char (minute dt div 10), digit_char (minute dt mod 10), CHR '':'',
      digit_char (second dt div 10), digit_char (second dt mod 10)]"
proof -
  have "day dt \<le> 31"
    using assms days_in_month_le [of "year dt" "month dt"] by (simp add: valid_datetime_def)
  with assms show ?thesis
    by (simp add: strftime_def valid_datetime_def zfill2_nat str_nat4_nat)
qed

text \<open>
  Claim C7. \<^verbatim>\<open>%Y\<close> prints the year without padding, so the format
  \<open>DD/MM/YYYY HH:MM:SS\<close> is reached for the years 1000 to 9999. Given a raw EXIF date
  string \<open>YYYY:MM:DD HH:MM:SS\<close> (fourteen decimal digits that form a valid date and
  time, the first digit of the year not \<open>0\<close>), \<open>get_image_date\<close> returns the same
  digits rearranged as \<open>DD/MM/YYYY HH:MM:SS\<close>; \<open>2021:05:10 14:30:00\<close> yields
  \<open>10/05/2021 14:30:00\<close>; and given no raw string it returns the file's
  last-modified time, when its year is at least 1000, in the same zero-padded
  \<open>DD/MM/YYYY HH:MM:SS\<close> format.
\<close>

theorem get_image_date_reformats:
  "((\<forall>c \<in> set [y1, y2, y3, y4, m1, m2, d1, d2, h1, h2, n1, n2, s1, s2]. is_digit c)
     \<and> y1 \<noteq> CHR ''0''
     \<and> valid_datetime
         (1000 * digit_val y1 + 100 * digit_val y2 + 10 * digit_val y3 + digit_val y4)
         (10 * digit_val m1 + digit_val m2) (10 * digit_val d1 + digit_val d2)
         (10 * digit_val h1 + digit_val h2) (10 * digit_val n1 + digit_val n2)
         (10 * digit_val s1 + digit_val s2)
     \<longrightarrow> get_image_date file_mtime p
           (Some (Val (GStr [y1, y2, y3, y4, CHR '':'', m1, m2, CHR '':'', d1, d2, CHR '' '',
                             h1, h2, CHR '':'', n1, n2, CHR '':'', s1, s2])))
         = Inr [d1, d2, CHR ''/'', m1, m2, CHR ''/'', y1, y2, y3, y4, CHR '' '',
                h1, h2, CHR '':'', n1, n2, CHR '':'', s1, s2])
   \<and> get_image_date file_mtime p (Some (Val (GStr ''2021:05:10 14:30:00'')))
       = Inr ''10/05/2021 14:30:00''
   \<and> (file_mtime p = Inr dt
       \<and> valid_datetime (year dt) (month dt) (day dt) (hour dt) (minute dt) (second dt)
       \<and> 1000 \<le> year dt
     \<longrightarrow> get_image_date file_mtime p None
         = Inr [digit_char (day dt div 10), digit_char (day dt mod 10), CHR ''/'',
                digit_char (month dt div 10), digit_char (month dt mod 10), CHR ''/'',
                digit_char (year dt div 1000), digit_char (year dt div 100 mod 10),
                digit_char (year dt div 10 mod 10), digit_char (year dt mod 10), CHR '' '',
                digit_char (hour dt div 10), digit_char (hour dt mod 10), CHR '':'',
                digit_char (minute dt div 10), digit_char (minute dt mod 10), CHR '':'',
                digit_char (second dt div 10), digit_char (second dt mod 10)])"
proof (intro conjI impI)
  assume a: "(\<forall>c \<in> set [y1, y2, y3, y4, m1, m2, d1, d2, h1, h2, n1, n2, s1, s2]. is_digit c)
     \<and> y1 \<noteq> CHR ''0''
     \<and> valid_datetime
         (1000 * digit_val y1 + 100 * digit_val y2 + 10 * digit_val y3 + digit_val y4)
         (10 * digit_val m1 + digit_val m2) (10 * digit_val d1 + digit_val d2)
         (10 * digit_val h1 + digit_val h2) (10 * digit_val n1 + digit_val n2)
         (10 * digit_val s1 + digit_val s2)"
  then have dg: "is_digit y1" "is_digit y2" "is_digit y3" "is_digit y4" "is_digit m1" "is_digit m2"
      "is_digit d1" "is_digit d2" "is_digit h1" "is_digit h2" "is_digit n1" "is_digit n2"
      "is_digit s1" "is_digit s2"
    by simp_all
  from a have nz: "y1 \<noteq> CHR ''0''"
    by simp
  from a have p: "strptime [y1, y2, y3, y4, CHR '':'', m1, m2, CHR '':'', d1, d2, CHR '' '',
                   h1, h2, CHR '':'', n1, n2, CHR '':'', s1, s2]
         = Inr \<lparr>year = 1000 * digit_val y1 + 100 * digit_val y2 + 10 * digit_val y3 + digit_val y4,
                month = 10 * digit_val m1 + digit_val m2, day = 10 * digit_val d1 + digit_val d2,
                hour = 10 * digit_val h1 + digit_val h2, minute = 10 * digit_val n1 + digit_val n2,
                second = 10 * digit_val s1 + digit_val s2\<rparr>"
    by (intro strptime_exif dg) simp
  show "get_image_date file_mtime p
           (Some (Val (GStr [y1, y2, y3, y4, CHR '':'', m1, m2, CHR '':'', d1, d2, CHR '' '',
                             h1, h2, CHR '':'', n1, n2, CHR '':'', s1, s2])))
         = Inr [d1, d2, CHR ''/'', m1, m2, CHR ''/'', y1, y2, y3, y4, CHR '' '',
                h1, h2, CHR '':'', n1, n2, CHR '':'', s1, s2]"
    using dg nz
    by (simp add: get_image_date_def bind_err_def p strftime_def zfill2_digits str_nat4_digits)
next
  show "get_image_date file_mtime p (Some (Val (GStr ''2021:05:10 14:30:00'')))
       = Inr ''10/05/2021 14:30:00''"
    by (rule get_image_date_example)
next
  assume "file_mtime p = Inr dt
       \<and> valid_datetime (year dt) (month dt) (day dt) (hour dt) (minute dt) (second dt)
       \<and> 1000 \<le> year dt"
  then show "get_image_date file_mtime p None
         = Inr [digit_char (day dt div 10), digit_char (day dt mod 10), CHR ''/'',
                digit_char (month dt div 10), digit_char (month dt mod 10), CHR ''/'',
                digit_char (year dt div 1000), digit_char (year dt div 100 mod 10),
                digit_char (year dt div 10 mod 10), digit_char (year dt mod 10), CHR '' '',
                digit_char (hour dt div 10), digit_char (hour dt mod 10), CHR '':'',
                digit_char (minute dt div 10), digit_char (minute dt mod 10), CHR '':'',
                digit_char (second dt div 10), digit_char (second dt mod 10)]"
    by (simp add: get_image_date_def bind_err_def strftime_shape)
qed

theorem get_image_date_reformats_witness:
  "get_image_date mtime_2020 ''img/a.jpg'' (Some (Val (GStr ''1999:12:31 23:59:58'')))
     = Inr ''31/12/1999 23:59:58''
   \<and> get_image_date mtime_2020 ''img/a.jpg'' None = Inr ''02/01/2020 03:04:05''"
proof -
  have dg: "\<forall>c \<in> set ''19991231235958''. is_digit c"
    by (simp add: is_digit_def)
  have v1: "valid_datetime
         (1000 * digit_val CHR ''1'' + 100 * digit_val CHR ''9'' + 10 * digit_val CHR ''9'' + digit_val CHR ''9'')
         (10 * digit_val CHR ''1'' + digit_val CHR ''2'') (10 * digit_val CHR ''3'' + digit_val CHR ''1'')
         (10 * digit_val CHR ''2'' + digit_val CHR ''3'') (10 * digit_val CHR ''5'' + digit_val CHR ''9'')
         (10 * digit_val CHR ''5'' + digit_val CHR ''8'')"
    by (simp add: valid_datetime_def digit_val_def days_in_month_def)
  have m: "mtime_2020 ''img/a.jpg'' = Inr \<lparr>year = 2020, month = 1, day = 2, hour = 3, minute = 4, second = 5\<rparr>"
    by (simp add: mtime_2020_def)
  have v2: "valid_datetime 2020 1 2 3 4 5"
    by (simp add: valid_datetime_def days_in_month_def)
  from get_image_date_reformats [of "CHR ''1''" "CHR ''9''" "CHR ''9''" "CHR ''9''" "CHR ''1''" "CHR ''2''"
      "CHR ''3''" "CHR ''1''" "CHR ''2''" "CHR ''3''" "CHR ''5''" "CHR ''9''" "CHR ''5''" "CHR ''8''"
      mtime_2020 "''img/a.jpg''" "\<lparr>year = 2020, month = 1, day = 2, hour = 3, minute = 4, second = 5\<rparr>"]
    dg v1 m v2
  show ?thesis
    by (simp add: digit_char_simps)
qed

text \<open>
  Claim C7, the case outside the format: the EXIF date \<open>0999:01:01 00:00:00\<close> is a
  valid date, and the string returned for it has a three-digit year; it is not
  \<open>01/01/0999 00:00:00\<close>.
\<close>

theorem get_image_date_year_999_counterexample:
  "get_image_date mtime_2020 ''img/a.jpg'' (Some (Val (GStr ''0999:01:01 00:00:00'')))
     = Inr ''01/01/999 00:00:00''
   \<and> get_image_date mtime_2020 ''img/a.jpg'' (Some (Val (GStr ''0999:01:01 00:00:00'')))
     \<noteq> Inr ''01/01/0999 00:00:00''"
  by (simp add: get_image_date_def bind_err_def strptime_def re_exif_date_def seq_def ret_def
      re_Y_def re_m_def re_d_def re_H_def re_M_def re_S_def four_digits_def two_digits_def
      one_digit_def blank_digit_def lit_def is_space_def is_digit_def digit_val_def
      mk_datetime_def valid_datetime_def days_in_month_def is_leap_def strftime_def zfill_def
      str_nat.simps digit_char_simps Let_def)

section \<open>Properties of the rendering\<close>





lemma thumbnail_fits:
  "width \<le> x \<Longrightarrow> height \<le> y \<Longrightarrow> thumbnail (x, y) (width, height) = Inr (width, height)"
  by (simp add: thumbnail_def)






section \<open>Properties of the image sequence\<close>

lemma shuffle_from_length: "length (shuffle_from rnd k x) = length x"
  by (induction k arbitrary: x) (simp_all add: Let_def)

lemma shuffle_from_mset:
  assumes "\<forall>n>0. rnd n < n"
  shows "k < length x \<Longrightarrow> mset (shuffle_from rnd k x) = mset x"
proof (induction k arbitrary: x)
  case 0
  show ?case
    by simp
next
  case (Suc k)
  let ?j = "rnd (Suc k + 1)"
  have "?j < Suc k + 1"
    using assms by simp
  with Suc.prems have j: "?j < length x"
    by simp
  have sw: "mset (x[Suc k := x ! ?j, ?j := x ! Suc k]) = mset x"
    using j Suc.prems by (rule mset_swap)
  have "mset (shuffle_from rnd k (x[Suc k := x ! ?j, ?j := x ! Suc k]))
      = mset (x[Suc k := x ! ?j, ?j := x ! Suc k])"
    using Suc.prems by (intro Suc.IH) simp
  with sw show ?case
    by (simp add: Let_def)
qed

lemma shuffle_mset:
  assumes "\<forall>n>0. rnd n < n"
  shows "mset (shuffle rnd x) = mset x"
proof (cases x)
  case Nil
  then show ?thesis
    by (simp add: shuffle_def)
next
  case (Cons a as)
  then have "length x - 1 < length x"
    by simp
  then show ?thesis
    unfolding shuffle_def using assms by (rule shuffle_from_mset [rotated])
qed

lemma select_many_from:
  "current_id st < length (image_list st) \<Longrightarrow>
   select_many k st =
     Inr (map (\<lambda>i. image_list st ! ((current_id st + i) mod length (image_list st))) [0..<k],
          st\<lparr>current_id := (current_id st + k) mod length (image_list st)\<rparr>)"
proof (induction k arbitrary: st)
  case 0
  then show ?case
    by simp
next
  case (Suc k)
  let ?n = "length (image_list st)"
  let ?st1 = "st\<lparr>current_id := (current_id st + 1) mod ?n\<rparr>"
  have n: "0 < ?n"
    using Suc.prems by (cases "image_list st") simp_all
  have s: "select_next st = Inr (image_list st ! current_id st, ?st1)"
    using Suc.prems by (simp add: select_next_def)
  have c1: "current_id ?st1 < length (image_list ?st1)"
    using n by simp
  have ih: "select_many k ?st1 =
     Inr (map (\<lambda>i. image_list st ! (((current_id st + 1) mod ?n + i) mod ?n)) [0..<k],
          st\<lparr>current_id := ((current_id st + 1) mod ?n + k) mod ?n\<rparr>)"
    using Suc.IH [OF c1] by simp
  have e: "\<And>i. (Suc (current_id st) mod ?n + i) mod ?n = Suc (current_id st + i) mod ?n"
    by (simp add: mod_add_left_eq)
  have m: "map (\<lambda>i. image_list st ! ((current_id st + i) mod ?n)) [0..<Suc k]
      = image_list st ! current_id st
        # map (\<lambda>i. image_list st ! ((current_id st + Suc i) mod ?n)) [0..<k]"
    using Suc.prems by (simp add: upt_conv_Cons map_Suc_upt [symmetric] del: upt_Suc)
  show ?case
    unfolding m using s ih by (simp add: bind_err_def e)
qed

lemma select_many_round:
  assumes "image_list st \<noteq> []" "current_id st = 0"
  shows "select_many (length (image_list st)) st = Inr (image_list st, st)"
proof -
  have "map (\<lambda>i. image_list st ! (i mod length (image_list st))) [0..<length (image_list st)]
      = map (\<lambda>i. image_list st ! i) [0..<length (image_list st)]"
    by (rule map_cong) simp_all
  also have "\<dots> = image_list st"
    by (rule map_nth)
  finally have m: "map (\<lambda>i. image_list st ! (i mod length (image_list st))) [0..<length (image_list st)]
      = image_list st" .
  have "st\<lparr>current_id := 0\<rparr> = st"
    using assms(2) by simp
  with m show ?thesis
    using assms select_many_from [of st "length (image_list st)"] by simp
qed

lemma select_many_add:
  "select_many (a + b) st =
     bind_err (select_many a st) (\<lambda>(xs, st').
     bind_err (select_many b st') (\<lambda>(ys, st''). Inr (xs @ ys, st'')))"
proof (induction a arbitrary: st)
  case 0
  show ?case
    by (cases "select_many b st") (auto simp: bind_err_def)
next
  case (Suc a)
  show ?case
    by (cases "select_next st") (auto simp: bind_err_def Suc split: sum.splits prod.splits)
qed


lemma collect_files_none:
  "\<forall>f \<in> set files. \<not> is_image_file f \<Longrightarrow> collect_files dirpath files acc = acc"
  unfolding collect_files_def by (induction files arbitrary: acc) simp_all

lemma collect_walk_none:
  "\<forall>entry \<in> set walk. \<forall>f \<in> set (snd (snd entry)). \<not> is_image_file f \<Longrightarrow>
   collect_walk walk acc = acc"
  unfolding collect_walk_def
  by (induction walk arbitrary: acc) (auto simp: collect_files_none split: prod.splits)

lemma shuffle_Nil: "shuffle rnd [] = []"
  by (simp add: shuffle_def)

lemma select_next_empty: "image_list st = [] \<Longrightarrow> select_next st = Inl IndexError"
  by (simp add: select_next_def)

lemma is_image_file_samples:
  "is_image_file ''a.jpg''" "\<not> is_image_file ''notes.txt''" "is_image_file ''b.PNG''"
  by (simp_all add: is_image_file_def endswith_def lower_def lower_char_def char_of_def bit_Suc_0_iff)

lemma sample_paths:
  "collect_walk (sample_walk ''img/'') [] = [''img/a.jpg'', ''img/b.PNG'']"
  by (simp add: collect_walk_def collect_files_def sample_walk_def is_image_file_samples path_join_def)

text \<open>
  Claim C9. With an empty image list the first statement of \<open>start_slideshow\<close> raises
  \<open>IndexError\<close>: no image is selected, none is shown and no timer is registered (the
  call is a total function, so it does not loop). A directory scan that finds no file
  with one of the four extensions leaves the list empty, so the slideshow fails in this
  way at its first call.
\<close>

theorem empty_scan_fails:
  "(image_list st = [] \<longrightarrow>
      select_next st = Inl IndexError \<and> start_slideshow e delay st = Inl IndexError)
   \<and> (image_list win = []
       \<and> (\<forall>entry \<in> set (os_walk (directory win)). \<forall>f \<in> set (snd (snd entry)). \<not> is_image_file f)
      \<longrightarrow> image_list (get_images os_walk randbelow win) = []
          \<and> start_slideshow e delay (get_images os_walk randbelow win) = Inl IndexError)"
proof (intro conjI impI)
  assume "image_list st = []"
  then show "select_next st = Inl IndexError"
    by (rule select_next_empty)
next
  assume "image_list st = []"
  then show "start_slideshow e delay st = Inl IndexError"
    by (simp add: start_slideshow_def select_next_empty bind_err_def)
next
  assume a: "image_list win = []
       \<and> (\<forall>entry \<in> set (os_walk (directory win)). \<forall>f \<in> set (snd (snd entry)). \<not> is_image_file f)"
  then show l: "image_list (get_images os_walk randbelow win) = []"
    by (simp add: get_images_def collect_walk_none shuffle_Nil)
  then show "start_slideshow e delay (get_images os_walk randbelow win) = Inl IndexError"
    by (simp add: start_slideshow_def select_next_empty bind_err_def)
qed

theorem empty_scan_fails_witness:
  "start_slideshow sample_env 2 (get_images (\<lambda>d. [(d, [], [''notes.txt''])]) (\<lambda>n. 0) (sample_window []))
     = Inl IndexError
   \<and> select_next (sample_window []) = Inl IndexError"
proof -
  have e: "image_list (sample_window []) = []"
    by (simp add: sample_window_def)
  have n: "\<forall>entry \<in> set [(directory (sample_window []), ([]::string list), [''notes.txt''])].
             \<forall>f \<in> set (snd (snd entry)). \<not> is_image_file f"
    by (simp add: is_image_file_samples)
  from empty_scan_fails [of "sample_window []" sample_env 2 "sample_window []"
      "\<lambda>d. [(d, [], [''notes.txt''])]" "\<lambda>n. 0"] e n
  show ?thesis
    by blast
qed


text \<open>
  Claim C1. Let the window be fresh (empty list, cursor 0), let the scan discover a
  non-empty list \<open>paths\<close> of distinct paths, and let the generator keep the library's
  promise. After \<open>get_images\<close> the list is a permutation of \<open>paths\<close> without
  repetition. A selection returns the path at the cursor and moves the cursor on by one
  modulo the length, from the last position back to 0, and leaves the list as it is.
  \<open>length paths\<close> selections in a row return the list itself, every path once, and
  restore the state; the next \<open>length paths\<close> selections return the same list again.
\<close>

theorem slideshow_cycle:
  assumes rnd: "\<forall>n>0. randbelow n < n"
    and fresh: "image_list win = []" "current_id win = 0"
    and paths: "collect_walk (os_walk (directory win)) [] = paths" "paths \<noteq> []" "distinct paths"
    and st: "st = get_images os_walk randbelow win"
  shows "mset (image_list st) = mset paths \<and> distinct (image_list st)
     \<and> set (image_list st) = set paths
     \<and> (\<forall>s. image_list s = image_list st \<and> current_id s < length paths \<longrightarrow>
           select_next s = Inr (image_list st ! current_id s,
                                s\<lparr>current_id := (current_id s + 1) mod length paths\<rparr>))
     \<and> select_next (st\<lparr>current_id := length paths - 1\<rparr>)
         = Inr (image_list st ! (length paths - 1), st\<lparr>current_id := 0\<rparr>)
     \<and> select_many (length paths) st = Inr (image_list st, st)
     \<and> select_many (length paths + length paths) st = Inr (image_list st @ image_list st, st)"
proof -
  have il: "image_list st = shuffle randbelow paths"
    using st fresh(1) paths(1) by (simp add: get_images_def)
  have m: "mset (image_list st) = mset paths"
    unfolding il using rnd by (rule shuffle_mset)
  then have len: "length (image_list st) = length paths"
    by (rule mset_eq_length)
  from m have s: "set (image_list st) = set paths"
    by (rule mset_eq_setD)
  have d: "distinct (image_list st)"
    using mset_eq_imp_distinct_iff [OF m] paths(3) by blast
  have ne: "image_list st \<noteq> []"
    using len paths(2) by auto
  have c0: "current_id st = 0"
    using st fresh(2) by (simp add: get_images_def)
  have nx: "\<forall>s. image_list s = image_list st \<and> current_id s < length paths \<longrightarrow>
           select_next s = Inr (image_list st ! current_id s,
                                s\<lparr>current_id := (current_id s + 1) mod length paths\<rparr>)"
    using len by (simp add: select_next_def)
  have wrap: "select_next (st\<lparr>current_id := length paths - 1\<rparr>)
         = Inr (image_list st ! (length paths - 1), st\<lparr>current_id := 0\<rparr>)"
    using len paths(2) by (simp add: select_next_def)
  have r1: "select_many (length paths) st = Inr (image_list st, st)"
    using select_many_round [OF ne c0] len by simp
  have r2: "select_many (length paths + length paths) st = Inr (image_list st @ image_list st, st)"
    unfolding select_many_add by (simp add: r1 bind_err_def)
  show ?thesis
    using m d s nx wrap r1 r2 by (intro conjI)
qed

theorem slideshow_cycle_witness:
  "select_many 4 (get_images sample_walk (\<lambda>n. 0) (sample_window []))
     = Inr ([''img/b.PNG'', ''img/a.jpg'', ''img/b.PNG'', ''img/a.jpg''],
            get_images sample_walk (\<lambda>n. 0) (sample_window []))"
proof -
  let ?st = "get_images sample_walk (\<lambda>n. 0) (sample_window [])"
  have rnd: "\<forall>n>0. (\<lambda>n. 0::nat) n < n"
    by simp
  have fresh: "image_list (sample_window []) = []" "current_id (sample_window []) = 0"
    by (simp_all add: sample_window_def)
  have paths: "collect_walk (sample_walk (directory (sample_window []))) [] = [''img/a.jpg'', ''img/b.PNG'']"
    by (simp add: sample_window_def sample_paths)
  have ne: "[''img/a.jpg'', ''img/b.PNG''] \<noteq> []" and d: "distinct [''img/a.jpg'', ''img/b.PNG'']"
    by simp_all
  have il: "image_list ?st = [''img/b.PNG'', ''img/a.jpg'']"
    by (simp add: get_images_def sample_window_def sample_paths shuffle_def)
  from slideshow_cycle [where randbelow = "\<lambda>n. 0" and win = "sample_window []"
      and os_walk = sample_walk and paths = "[''img/a.jpg'', ''img/b.PNG'']" and st = ?st,
      OF rnd fresh paths ne d refl]
  have "select_many (length [''img/a.jpg'', ''img/b.PNG''] + length [''img/a.jpg'', ''img/b.PNG'']) ?st
      = Inr (image_list ?st @ image_list ?st, ?st)"
    by (elim conjE)
  moreover have "length [''img/a.jpg'', ''img/b.PNG''] + length [''img/a.jpg'', ''img/b.PNG''] = (4::nat)"
    by simp
  ultimately show ?thesis
    by (simp only: il append.simps)
qed

section \<open>Properties of the controller\<close>

lemma get_image_coords_paris:
  "get_image_coords gps_tags (Ifd gps_paris_south) = Inr (- (5863 / 120), 413 / 180, 36)"
  by (simp add: get_image_coords_def coords_data_paris dict_get_def dms_to_decimal_tuple
      round_half_even_examples bind_err_def Let_def)

lemma get_image_date_mtime_2020:
  "get_image_date mtime_2020 p None = Inr ''02/01/2020 03:04:05''"
proof -
  have v: "valid_datetime 2020 1 2 3 4 5"
    by (simp add: valid_datetime_def days_in_month_def)
  show ?thesis
    using strftime_shape [of "\<lparr>year = 2020, month = 1, day = 2, hour = 3, minute = 4, second = 5\<rparr>"] v
    by (simp add: get_image_date_def bind_err_def mtime_2020_def digit_char_simps)
qed

lemma locate_no_gps:
  "\<not> truthy gps \<Longrightarrow> locate e gps = Inr ((0, 0, 0), None, lieu_non_defini)"
  by (cases gps) (simp_all add: locate_def)


lemma parse_sample: "parse_image_data exif_tags None = []"
  by (simp add: parse_image_data_def)

lemma show_image_sample:
  assumes "p \<noteq> ''img/gps.jpg''" "screen_w st = 1920" "screen_h st = 1080"
  shows "show_image sample_env p st =
     Inr (st\<lparr>current_image := Some (800, 600),
             canvas :=
               [CanvasImage 960 540 ''center'' (800, 600),
                CanvasText 20 10 (Some ''02/01/2020 03:04:05'') ''white'' (''Ubuntu'', 12) ''nw'',
                CanvasText 20 1070 (Some lieu_non_defini) ''white'' (''Ubuntu'', 12) ''sw'',
                CanvasText 20 1070 None ''white'' (''Ubuntu'', 12) ''sw'',
                CanvasText 1900 1070 (Some (last_component p)) ''white'' (''Ubuntu'', 12) ''se'']\<rparr>)"
  using assms
  by (simp add: show_image_def sample_env_def sample_image_def bind_err_def parse_sample
      dict_get_def dict_get_default_def get_image_date_mtime_2020 locate_no_gps thumbnail_fits Let_def)





lemma start_slideshow_sample:
  assumes "screen_w st = 1920" "screen_h st = 1080" "image_list st = [''img/a.jpg'', ''img/b.PNG'']"
    and "current_id st < 2"
  shows "\<exists>st'. start_slideshow sample_env delay st = Inr st'
     \<and> timers st' = timers st @ [delay * 1000]
     \<and> screen_w st' = 1920 \<and> screen_h st' = 1080
     \<and> image_list st' = [''img/a.jpg'', ''img/b.PNG''] \<and> current_id st' < 2"
proof -
  let ?p = "image_list st ! current_id st"
  let ?st1 = "st\<lparr>current_id := Suc (current_id st) mod length (image_list st)\<rparr>"
  have sel: "select_next st = Inr (?p, ?st1)"
    using assms by (simp add: select_next_def)
  have "current_id st = 0 \<or> current_id st = 1"
    using assms(4) by auto
  then have p: "?p \<noteq> ''img/gps.jpg''"
    using assms(3) by auto
  have sc: "screen_w ?st1 = 1920" "screen_h ?st1 = 1080"
    using assms by simp_all
  define st2 where "st2 = ?st1\<lparr>current_image := Some (800, 600),
             canvas :=
               [CanvasImage 960 540 ''center'' (800, 600),
                CanvasText 20 10 (Some ''02/01/2020 03:04:05'') ''white'' (''Ubuntu'', 12) ''nw'',
                CanvasText 20 1070 (Some lieu_non_defini) ''white'' (''Ubuntu'', 12) ''sw'',
                CanvasText 20 1070 None ''white'' (''Ubuntu'', 12) ''sw'',
                CanvasText 1900 1070 (Some (last_component ?p)) ''white'' (''Ubuntu'', 12) ''se'']\<rparr>"
  have sh: "show_image sample_env ?p ?st1 = Inr st2"
    unfolding st2_def using p sc by (rule show_image_sample)
  have run: "start_slideshow sample_env delay st = Inr (st2\<lparr>timers := timers st2 @ [delay * 1000]\<rparr>)"
    unfolding start_slideshow_def sel by (simp add: bind_err_def sh)
  have keep: "timers st2 = timers st" "screen_w st2 = 1920" "screen_h st2 = 1080"
    "image_list st2 = [''img/a.jpg'', ''img/b.PNG'']" "current_id st2 < 2"
    using assms by (simp_all add: st2_def numeral_2_eq_2 [symmetric])
  show ?thesis
    using run keep by simp
qed

lemma mainloop_sample:
  assumes "screen_w st = 1920" "screen_h st = 1080" "image_list st = [''img/a.jpg'', ''img/b.PNG'']"
    and "current_id st < 2" and "timers st = [ms]"
  shows "\<exists>st'. mainloop sample_env (Suc n) st = Inr (ms # replicate n 4000, st')
     \<and> timers st' = [4000]"
  using assms
proof (induction n arbitrary: st ms)
  case 0
  let ?st0 = "st\<lparr>timers := []\<rparr>"
  have "\<exists>st'. start_slideshow sample_env 4 ?st0 = Inr st'
     \<and> timers st' = timers ?st0 @ [4 * 1000]
     \<and> screen_w st' = 1920 \<and> screen_h st' = 1080
     \<and> image_list st' = [''img/a.jpg'', ''img/b.PNG''] \<and> current_id st' < 2"
    using 0 by (intro start_slideshow_sample) simp_all
  then obtain st' where s: "start_slideshow sample_env 4 ?st0 = Inr st'" and t: "timers st' = [4000]"
    by auto
  show ?case
    using 0(5) s t by (simp add: bind_err_def)
next
  case (Suc n)
  let ?st0 = "st\<lparr>timers := []\<rparr>"
  have "\<exists>st'. start_slideshow sample_env 4 ?st0 = Inr st'
     \<and> timers st' = timers ?st0 @ [4 * 1000]
     \<and> screen_w st' = 1920 \<and> screen_h st' = 1080
     \<and> image_list st' = [''img/a.jpg'', ''img/b.PNG''] \<and> current_id st' < 2"
    using Suc.prems by (intro start_slideshow_sample) simp_all
  then obtain st' where s: "start_slideshow sample_env 4 ?st0 = Inr st'" and t: "timers st' = [4000]"
    and inv: "screen_w st' = 1920" "screen_h st' = 1080"
      "image_list st' = [''img/a.jpg'', ''img/b.PNG'']" "current_id st' < 2"
    by auto
  from Suc.IH [OF inv t] obtain st'' where
    m: "mainloop sample_env (Suc n) st' = Inr (4000 # replicate n 4000, st'')" and t2: "timers st'' = [4000]"
    by blast
  have "mainloop sample_env (Suc (Suc n)) st = Inr (ms # 4000 # replicate n 4000, st'')"
    using Suc.prems(5) s m by (subst mainloop.simps) (simp add: bind_err_def)
  with t2 show ?case
    by simp
qed

text \<open>
  Claim C4. The program starts the slideshow with \<^verbatim>\<open>start_slideshow(delay=2)\<close>. On
  the sample directory the first timer waits 2000 ms and each of the following ones
  4000 ms: \<^verbatim>\<open>self.after\<close> registers \<^verbatim>\<open>self.start_slideshow\<close> without its argument, so
  every later call runs with the default delay of 4 seconds.
\<close>

theorem configured_delay_used_once:
  "bind_err (start_slideshow sample_env 2 (sample_window [''img/a.jpg'', ''img/b.PNG'']))
     (\<lambda>st. bind_err (mainloop sample_env (Suc n) st) (\<lambda>(waits, st'). Inr (waits, timers st')))
   = Inr (2000 # replicate n 4000, [4000])"
proof -
  let ?w = "sample_window [''img/a.jpg'', ''img/b.PNG'']"
  have "\<exists>st'. start_slideshow sample_env 2 ?w = Inr st'
     \<and> timers st' = timers ?w @ [2 * 1000]
     \<and> screen_w st' = 1920 \<and> screen_h st' = 1080
     \<and> image_list st' = [''img/a.jpg'', ''img/b.PNG''] \<and> current_id st' < 2"
    by (intro start_slideshow_sample) (simp_all add: sample_window_def)
  then obtain st where s: "start_slideshow sample_env 2 ?w = Inr st" and t: "timers st = [2000]"
    and inv: "screen_w st = 1920" "screen_h st = 1080"
      "image_list st = [''img/a.jpg'', ''img/b.PNG'']" "current_id st < 2"
    by (auto simp: sample_window_def)
  from mainloop_sample [OF inv t, of n] obtain st' where
    m: "mainloop sample_env (Suc n) st = Inr (2000 # replicate n 4000, st')" and t2: "timers st' = [4000]"
    by blast
  show ?thesis
    unfolding s by (simp add: bind_err_def m t2 del: mainloop.simps)
qed

lemma location_request_fails:
  "requests_get e (api_key e) lat lon = Inl err \<Longrightarrow> get_image_location e lat lon = Inl err"
  by (simp add: get_image_location_def bind_err_def)

lemma location_not_json:
  "requests_get e (api_key e) lat lon = Inr (Inl err) \<Longrightarrow> get_image_location e lat lon = Inl err"
  by (simp add: get_image_location_def json_data0_def bind_err_def)

lemma location_no_data:
  "requests_get e (api_key e) lat lon = Inr (Inr (JObj kvs)) \<Longrightarrow> dict_get kvs ''data'' = None \<Longrightarrow>
   get_image_location e lat lon = Inl KeyError"
  by (simp add: get_image_location_def json_data0_def bind_err_def)

lemma location_empty_data:
  "requests_get e (api_key e) lat lon = Inr (Inr (JObj kvs)) \<Longrightarrow> dict_get kvs ''data'' = Some (JArr []) \<Longrightarrow>
   get_image_location e lat lon = Inl IndexError"
  by (simp add: get_image_location_def json_data0_def bind_err_def)

lemma location_no_name:
  "requests_get e (api_key e) lat lon = Inr (Inr (JObj kvs)) \<Longrightarrow>
   dict_get kvs ''data'' = Some (JArr (JObj r # rest)) \<Longrightarrow> dict_get r ''name'' = None \<Longrightarrow>
   get_image_location e lat lon = Inl KeyError"
  by (simp add: get_image_location_def json_data0_def bind_err_def)

lemma location_no_locality:
  "requests_get e (api_key e) lat lon = Inr (Inr (JObj kvs)) \<Longrightarrow>
   dict_get kvs ''data'' = Some (JArr (JObj r # rest)) \<Longrightarrow> dict_get r ''name'' = Some (JStr n) \<Longrightarrow>
   dict_get r ''locality'' = None \<Longrightarrow> get_image_location e lat lon = Inl KeyError"
  by (simp add: get_image_location_def json_data0_def bind_err_def)

lemma show_image_lookup_fails:
  assumes "get_image_location e lat lon = Inl err"
    and "image_open e filepath = Inr img" "getexif img = Inr exif"
    and "get_image_date (stat_mtime e) filepath
           (dict_get_default (parse_image_data (tags_table e) exif) ''DateTimeOriginal''
              (dict_get (parse_image_data (tags_table e) exif) ''DateTime'')) = Inr image_date"
    and "dict_get (parse_image_data (tags_table e) exif) ''GPSInfo'' = Some gps" "truthy (Some gps)"
    and "get_image_coords (gpstags_table e) gps = Inr (lat, lon, alt)"
  shows "show_image e filepath st = Inl err"
  using assms by (simp add: show_image_def locate_def bind_err_def Let_def)

lemma start_slideshow_show_fails:
  "select_next w = Inr (filepath, st) \<Longrightarrow> show_image e filepath st = Inl err \<Longrightarrow>
   start_slideshow e delay w = Inl err"
  by (simp add: start_slideshow_def bind_err_def)

lemma parse_gps_image:
  "parse_image_data exif_tags (Some [(34853, Ifd gps_paris_south)]) = [(''GPSInfo'', Ifd gps_paris_south)]"
  by (simp add: parse_image_data_def exif_tags_def)

lemma show_gps_image_fails:
  assumes "get_image_location e (- (5863 / 120)) (413 / 180) = Inl err"
    and "image_open e = image_open sample_env" "stat_mtime e = mtime_2020"
    and "tags_table e = exif_tags" "gpstags_table e = gps_tags"
  shows "show_image e ''img/gps.jpg'' st = Inl err"
proof (rule show_image_lookup_fails [OF assms(1)])
  show "image_open e ''img/gps.jpg'' = Inr gps_image"
    by (simp add: assms sample_env_def)
  show "getexif gps_image = Inr (Some [(34853, Ifd gps_paris_south)])"
    by (simp add: gps_image_def)
  show "get_image_date (stat_mtime e) ''img/gps.jpg''
           (dict_get_default (parse_image_data (tags_table e) (Some [(34853, Ifd gps_paris_south)])) ''DateTimeOriginal''
              (dict_get (parse_image_data (tags_table e) (Some [(34853, Ifd gps_paris_south)])) ''DateTime''))
        = Inr ''02/01/2020 03:04:05''"
    by (simp add: assms parse_gps_image dict_get_def dict_get_default_def get_image_date_mtime_2020)
  show "dict_get (parse_image_data (tags_table e) (Some [(34853, Ifd gps_paris_south)])) ''GPSInfo''
        = Some (Ifd gps_paris_south)"
    by (simp add: assms parse_gps_image dict_get_def)
  show "truthy (Some (Ifd gps_paris_south))"
    by (simp add: gps_paris_south_def)
  show "get_image_coords (gpstags_table e) (Ifd gps_paris_south) = Inr (- (5863 / 120), 413 / 180, 36)"
    by (simp add: assms get_image_coords_paris)
qed

lemma select_gps: "select_next (sample_window [''img/gps.jpg'']) = Inr (''img/gps.jpg'', sample_window [''img/gps.jpg''])"
  by (simp add: select_next_def sample_window_def)


text \<open>
  Claim C2. Nothing in the program catches a failure of the geocoding lookup.
  \<open>get_image_location\<close> raises what \<^verbatim>\<open>requests.get\<close> raises (network failure) and
  what \<^verbatim>\<open>json()\<close> raises (a body that is not JSON); it raises \<open>KeyError\<close> when the
  reply has no \<open>data\<close> field, \<open>IndexError\<close> when \<open>data\<close> is the empty list, and
  \<open>KeyError\<close> when the first result has no \<open>name\<close> or no \<open>locality\<close>. When the lookup
  raises for the coordinates of an image with a GPS block, \<open>show_image\<close> raises the same
  error and so does \<open>start_slideshow\<close>, which then registers no timer: no placeholder
  is used and no next tick is scheduled.
\<close>

theorem lookup_failure_propagates:
  "(requests_get e (api_key e) lat lon = Inl err \<longrightarrow> get_image_location e lat lon = Inl err)
   \<and> (requests_get e (api_key e) lat lon = Inr (Inl err) \<longrightarrow> get_image_location e lat lon = Inl err)
   \<and> (requests_get e (api_key e) lat lon = Inr (Inr (JObj kvs)) \<and> dict_get kvs ''data'' = None
        \<longrightarrow> get_image_location e lat lon = Inl KeyError)
   \<and> (requests_get e (api_key e) lat lon = Inr (Inr (JObj kvs)) \<and> dict_get kvs ''data'' = Some (JArr [])
        \<longrightarrow> get_image_location e lat lon = Inl IndexError)
   \<and> (requests_get e (api_key e) lat lon = Inr (Inr (JObj kvs))
        \<and> dict_get kvs ''data'' = Some (JArr (JObj r # rest)) \<and> dict_get r ''name'' = None
        \<longrightarrow> get_image_location e lat lon = Inl KeyError)
   \<and> (requests_get e (api_key e) lat lon = Inr (Inr (JObj kvs))
        \<and> dict_get kvs ''data'' = Some (JArr (JObj r # rest)) \<and> dict_get r ''name'' = Some (JStr n)
        \<and> dict_get r ''locality'' = None
        \<longrightarrow> get_image_location e lat lon = Inl KeyError)
   \<and> (get_image_location e lat lon = Inl err \<and> image_open e filepath = Inr img
       \<and> getexif img = Inr exif
       \<and> get_image_date (stat_mtime e) filepath
            (dict_get_default (parse_image_data (tags_table e) exif) ''DateTimeOriginal''
               (dict_get (parse_image_data (tags_table e) exif) ''DateTime'')) = Inr image_date
       \<and> dict_get (parse_image_data (tags_table e) exif) ''GPSInfo'' = Some gps \<and> truthy (Some gps)
       \<and> get_image_coords (gpstags_table e) gps = Inr (lat, lon, alt)
       \<and> select_next w = Inr (filepath, st)
        \<longrightarrow> show_image e filepath st = Inl err \<and> start_slideshow e delay w = Inl err)"
proof (intro conjI impI)
  assume "get_image_location e lat lon = Inl err \<and> image_open e filepath = Inr img
       \<and> getexif img = Inr exif
       \<and> get_image_date (stat_mtime e) filepath
            (dict_get_default (parse_image_data (tags_table e) exif) ''DateTimeOriginal''
               (dict_get (parse_image_data (tags_table e) exif) ''DateTime'')) = Inr image_date
       \<and> dict_get (parse_image_data (tags_table e) exif) ''GPSInfo'' = Some gps \<and> truthy (Some gps)
       \<and> get_image_coords (gpstags_table e) gps = Inr (lat, lon, alt)
       \<and> select_next w = Inr (filepath, st)"
  then show s: "show_image e filepath st = Inl err"
    by (intro show_image_lookup_fails [where lat = lat and lon = lon and alt = alt and gps = gps
          and img = img and exif = exif and image_date = image_date]) simp_all
  assume "get_image_location e lat lon = Inl err \<and> image_open e filepath = Inr img
       \<and> getexif img = Inr exif
       \<and> get_image_date (stat_mtime e) filepath
            (dict_get_default (parse_image_data (tags_table e) exif) ''DateTimeOriginal''
               (dict_get (parse_image_data (tags_table e) exif) ''DateTime'')) = Inr image_date
       \<and> dict_get (parse_image_data (tags_table e) exif) ''GPSInfo'' = Some gps \<and> truthy (Some gps)
       \<and> get_image_coords (gpstags_table e) gps = Inr (lat, lon, alt)
       \<and> select_next w = Inr (filepath, st)"
  then show "start_slideshow e delay w = Inl err"
    using s by (intro start_slideshow_show_fails [where filepath = filepath and st = st]) simp_all
qed (auto simp: location_request_fails location_not_json location_no_data location_empty_data
     location_no_name location_no_locality)

theorem lookup_failure_propagates_witness:
  "get_image_location (sample_env) 0 0 = Inl ConnectionError
   \<and> get_image_location (env_replying (Inl JSONDecodeError)) 0 0 = Inl JSONDecodeError
   \<and> get_image_location (env_replying (Inr (JObj []))) 0 0 = Inl KeyError
   \<and> get_image_location (env_replying (Inr (JObj [(''data'', JArr [])]))) 0 0 = Inl IndexError
   \<and> get_image_location (env_replying (Inr (JObj [(''data'', JArr [JObj []])]))) 0 0 = Inl KeyError
   \<and> get_image_location (env_replying (Inr (JObj [(''data'', JArr [JObj [(''name'', JStr ''Paris'')]])]))) 0 0 = Inl KeyError
   \<and> show_image sample_env ''img/gps.jpg'' (sample_window [''img/gps.jpg'']) = Inl ConnectionError
   \<and> start_slideshow sample_env 2 (sample_window [''img/gps.jpg'']) = Inl ConnectionError"
proof -
  have c1: "get_image_location (sample_env) 0 0 = Inl ConnectionError"
  proof -
    from lookup_failure_propagates [where e = "sample_env" and lat = 0 and lon = 0 and err = ConnectionError, THEN conjunct1]
    have "requests_get sample_env (api_key sample_env) 0 0 = Inl ConnectionError
        \<longrightarrow> get_image_location (sample_env) 0 0 = Inl ConnectionError"
      .
    moreover have "requests_get sample_env (api_key sample_env) 0 0 = Inl ConnectionError"
      by (simp add: sample_env_def)
    ultimately show ?thesis
      by (rule mp)
  qed
  have c2: "get_image_location (env_replying (Inl JSONDecodeError)) 0 0 = Inl JSONDecodeError"
  proof -
    from lookup_failure_propagates [where e = "env_replying (Inl JSONDecodeError)" and lat = 0 and lon = 0 and err = JSONDecodeError, THEN conjunct2, THEN conjunct1]
    have "requests_get (env_replying (Inl JSONDecodeError)) (api_key (env_replying (Inl JSONDecodeError))) 0 0 = Inr (Inl JSONDecodeError)
        \<longrightarrow> get_image_location (env_replying (Inl JSONDecodeError)) 0 0 = Inl JSONDecodeError"
      .
    moreover have "requests_get (env_replying (Inl JSONDecodeError)) (api_key (env_replying (Inl JSONDecodeError))) 0 0 = Inr (Inl JSONDecodeError)"
      by (simp add: env_replying_def sample_env_def)
    ultimately show ?thesis
      by (rule mp)
  qed
  have c3: "get_image_location (env_replying (Inr (JObj []))) 0 0 = Inl KeyError"
  proof -
    from lookup_failure_propagates [where e = "env_replying (Inr (JObj []))" and lat = 0 and lon = 0 and kvs = "[]", THEN conjunct2, THEN conjunct2, THEN conjunct1]
    have "requests_get (env_replying (Inr (JObj []))) (api_key (env_replying (Inr (JObj [])))) 0 0 = Inr (Inr (JObj [])) \<and> dict_get [] ''data'' = (None :: json option)
        \<longrightarrow> get_image_location (env_replying (Inr (JObj []))) 0 0 = Inl KeyError"
      .
    moreover have "requests_get (env_replying (Inr (JObj []))) (api_key (env_replying (Inr (JObj [])))) 0 0 = Inr (Inr (JObj [])) \<and> dict_get [] ''data'' = (None :: json option)"
      by (simp add: env_replying_def sample_env_def dict_get_def)
    ultimately show ?thesis
      by (rule mp)
  qed
  have c4: "get_image_location (env_replying (Inr (JObj [(''data'', JArr [])]))) 0 0 = Inl IndexError"
  proof -
    from lookup_failure_propagates [where e = "env_replying (Inr (JObj [(''data'', JArr [])]))" and lat = 0 and lon = 0 and kvs = "[(''data'', JArr [])]", THEN conjunct2, THEN conjunct2, THEN conjunct2, THEN conjunct1]
    have "requests_get (env_replying (Inr (JObj [(''data'', JArr [])]))) (api_key (env_replying (Inr (JObj [(''data'', JArr [])])))) 0 0 = Inr (Inr (JObj [(''data'', JArr [])])) \<and> dict_get [(''data'', JArr [])] ''data'' = Some (JArr [])
        \<longrightarrow> get_image_location (env_replying (Inr (JObj [(''data'', JArr [])]))) 0 0 = Inl IndexError"
      .
    moreover have "requests_get (env_replying (Inr (JObj [(''data'', JArr [])]))) (api_key (env_replying (Inr (JObj [(''data'', JArr [])])))) 0 0 = Inr (Inr (JObj [(''data'', JArr [])])) \<and> dict_get [(''data'', JArr [])] ''data'' = Some (JArr [])"
      by (simp add: env_replying_def sample_env_def dict_get_def)
    ultimately show ?thesis
      by (rule mp)
  qed
  have c5: "get_image_location (env_replying (Inr (JObj [(''data'', JArr [JObj []])]))) 0 0 = Inl KeyError"
  proof -
    from lookup_failure_propagates [where e = "env_replying (Inr (JObj [(''data'', JArr [JObj []])]))" and lat = 0 and lon = 0 and kvs = "[(''data'', JArr [JObj []])]" and r = "[]" and rest = "[]", THEN conjunct2, THEN conjunct2, THEN conjunct2, THEN conjunct2, THEN conjunct1]
    have "requests_get (env_replying (Inr (JObj [(''data'', JArr [JObj []])]))) (api_key (env_replying (Inr (JObj [(''data'', JArr [JObj []])])))) 0 0 = Inr (Inr (JObj [(''data'', JArr [JObj []])])) \<and> dict_get [(''data'', JArr [JObj []])] ''data'' = Some (JArr (JObj [] # [])) \<and> dict_get [] ''name'' = (None :: json option)
        \<longrightarrow> get_image_location (env_replying (Inr (JObj [(''data'', JArr [JObj []])]))) 0 0 = Inl KeyError"
      .
    moreover have "requests_get (env_replying (Inr (JObj [(''data'', JArr [JObj []])]))) (api_key (env_replying (Inr (JObj [(''data'', JArr [JObj []])])))) 0 0 = Inr (Inr (JObj [(''data'', JArr [JObj []])])) \<and> dict_get [(''data'', JArr [JObj []])] ''data'' = Some (JArr (JObj [] # [])) \<and> dict_get [] ''name'' = (None :: json option)"
      by (simp add: env_replying_def sample_env_def dict_get_def)
    ultimately show ?thesis
      by (rule mp)
  qed
  have c6: "get_image_location (env_replying (Inr (JObj [(''data'', JArr [JObj [(''name'', JStr ''Paris'')]])]))) 0 0 = Inl KeyError"
  proof -
    from lookup_failure_propagates [where e = "env_replying (Inr (JObj [(''data'', JArr [JObj [(''name'', JStr ''Paris'')]])]))" and lat = 0 and lon = 0 and kvs = "[(''data'', JArr [JObj [(''name'', JStr ''Paris'')]])]" and r = "[(''name'', JStr ''Paris'')]" and rest = "[]" and n = "''Paris''", THEN conjunct2, THEN conjunct2, THEN conjunct2, THEN conjunct2, THEN conjunct2, THEN conjunct1]
    have "requests_get (env_replying (Inr (JObj [(''data'', JArr [JObj [(''name'', JStr ''Paris'')]])]))) (api_key (env_replying (Inr (JObj [(''data'', JArr [JObj [(''name'', JStr ''Paris'')]])])))) 0 0 = Inr (Inr (JObj [(''data'', JArr [JObj [(''name'', JStr ''Paris'')]])])) \<and> dict_get [(''data'', JArr [JObj [(''name'', JStr ''Paris'')]])] ''data'' = Some (JArr (JObj [(''name'', JStr ''Paris'')] # [])) \<and> dict_get [(''name'', JStr ''Paris'')] ''name'' = Some (JStr ''Paris'') \<and> dict_get [(''name'', JStr ''Paris'')] ''locality'' = None
        \<longrightarrow> get_image_location (env_replying (Inr (JObj [(''data'', JArr [JObj [(''name'', JStr ''Paris'')]])]))) 0 0 = Inl KeyError"
      .
    moreover have "requests_get (env_replying (Inr (JObj [(''data'', JArr [JObj [(''name'', JStr ''Paris'')]])]))) (api_key (env_replying (Inr (JObj [(''data'', JArr [JObj [(''name'', JStr ''Paris'')]])])))) 0 0 = Inr (Inr (JObj [(''data'', JArr [JObj [(''name'', JStr ''Paris'')]])])) \<and> dict_get [(''data'', JArr [JObj [(''name'', JStr ''Paris'')]])] ''data'' = Some (JArr (JObj [(''name'', JStr ''Paris'')] # [])) \<and> dict_get [(''name'', JStr ''Paris'')] ''name'' = Some (JStr ''Paris'') \<and> dict_get [(''name'', JStr ''Paris'')] ''locality'' = None"
      by (simp add: env_replying_def sample_env_def dict_get_def)
    ultimately show ?thesis
      by (rule mp)
  qed
  have l: "get_image_location sample_env (- (5863 / 120)) (413 / 180) = Inl ConnectionError"
    by (simp add: location_request_fails sample_env_def)
  have ne: "gps_paris_south \<noteq> []"
    by (simp add: gps_paris_south_def)
  have h: "get_image_location sample_env (- (5863 / 120)) (413 / 180) = Inl ConnectionError
       \<and> image_open sample_env ''img/gps.jpg'' = Inr gps_image
       \<and> getexif gps_image = Inr (Some [(34853, Ifd gps_paris_south)])
       \<and> get_image_date (stat_mtime sample_env) ''img/gps.jpg''
            (dict_get_default (parse_image_data (tags_table sample_env) (Some [(34853, Ifd gps_paris_south)])) ''DateTimeOriginal''
               (dict_get (parse_image_data (tags_table sample_env) (Some [(34853, Ifd gps_paris_south)])) ''DateTime''))
           = Inr ''02/01/2020 03:04:05''
       \<and> dict_get (parse_image_data (tags_table sample_env) (Some [(34853, Ifd gps_paris_south)])) ''GPSInfo''
           = Some (Ifd gps_paris_south)
       \<and> truthy (Some (Ifd gps_paris_south))
       \<and> get_image_coords (gpstags_table sample_env) (Ifd gps_paris_south) = Inr (- (5863 / 120), 413 / 180, 36)
       \<and> select_next (sample_window [''img/gps.jpg'']) = Inr (''img/gps.jpg'', sample_window [''img/gps.jpg''])"
    using l
    by (simp add: sample_env_def gps_image_def parse_gps_image dict_get_def dict_get_default_def
        get_image_date_mtime_2020 ne get_image_coords_paris select_gps)
  have c7: "show_image sample_env ''img/gps.jpg'' (sample_window [''img/gps.jpg'']) = Inl ConnectionError
      \<and> start_slideshow sample_env 2 (sample_window [''img/gps.jpg'']) = Inl ConnectionError"
  proof -
    from lookup_failure_propagates [where e = sample_env and lat = "- (5863 / 120)" and lon = "413 / 180"
        and err = ConnectionError and filepath = "''img/gps.jpg''" and img = gps_image
        and exif = "Some [(34853, Ifd gps_paris_south)]" and image_date = "''02/01/2020 03:04:05''"
        and gps = "Ifd gps_paris_south" and alt = 36 and st = "sample_window [''img/gps.jpg'']"
        and w = "sample_window [''img/gps.jpg'']" and delay = 2, THEN conjunct2, THEN conjunct2, THEN conjunct2, THEN conjunct2, THEN conjunct2, THEN conjunct2]
    have "(get_image_location sample_env (- (5863 / 120)) (413 / 180) = Inl ConnectionError
       \<and> image_open sample_env ''img/gps.jpg'' = Inr gps_image
       \<and> getexif gps_image = Inr (Some [(34853, Ifd gps_paris_south)])
       \<and> get_image_date (stat_mtime sample_env) ''img/gps.jpg''
            (dict_get_default (parse_image_data (tags_table sample_env) (Some [(34853, Ifd gps_paris_south)])) ''DateTimeOriginal''
               (dict_get (parse_image_data (tags_table sample_env) (Some [(34853, Ifd gps_paris_south)])) ''DateTime''))
           = Inr ''02/01/2020 03:04:05''
       \<and> dict_get (parse_image_data (tags_table sample_env) (Some [(34853, Ifd gps_paris_south)])) ''GPSInfo''
           = Some (Ifd gps_paris_south)
       \<and> truthy (Some (Ifd gps_paris_south))
       \<and> get_image_coords (gpstags_table sample_env) (Ifd gps_paris_south) = Inr (- (5863 / 120), 413 / 180, 36)
       \<and> select_next (sample_window [''img/gps.jpg'']) = Inr (''img/gps.jpg'', sample_window [''img/gps.jpg'']))
      \<longrightarrow> show_image sample_env ''img/gps.jpg'' (sample_window [''img/gps.jpg'']) = Inl ConnectionError
        \<and> start_slideshow sample_env 2 (sample_window [''img/gps.jpg'']) = Inl ConnectionError"
      .
    then show ?thesis
      using h by (rule mp)
  qed
  from c1 c2 c3 c4 c5 c6 c7 show ?thesis
    by (intro conjI) (elim conjE, assumption)+
qed

text \<open>
  Claim C2, an empty result set: the service answers with an empty \<open>data\<close> list for the
  coordinates of \<open>img/gps.jpg\<close>. The lookup, \<open>show_image\<close> and the tick all raise
  \<open>IndexError\<close>; no placeholder string is returned and no timer is registered.
\<close>

theorem lookup_empty_result_counterexample:
  "get_image_location (env_replying (Inr (JObj [(''data'', JArr [])]))) (- (5863 / 120)) (413 / 180)
     = Inl IndexError
   \<and> show_image (env_replying (Inr (JObj [(''data'', JArr [])]))) ''img/gps.jpg''
         (sample_window [''img/gps.jpg'']) = Inl IndexError
   \<and> start_slideshow (env_replying (Inr (JObj [(''data'', JArr [])]))) 2
         (sample_window [''img/gps.jpg'']) = Inl IndexError"
proof -
  let ?e = "env_replying (Inr (JObj [(''data'', JArr [])]))"
  have l: "get_image_location ?e (- (5863 / 120)) (413 / 180) = Inl IndexError"
    by (rule location_empty_data [where kvs = "[(''data'', JArr [])]"])
      (simp_all add: env_replying_def dict_get_def)
  have s: "show_image ?e ''img/gps.jpg'' (sample_window [''img/gps.jpg'']) = Inl IndexError"
    using l by (rule show_gps_image_fails) (simp_all add: env_replying_def sample_env_def)
  have "start_slideshow ?e 2 (sample_window [''img/gps.jpg'']) = Inl IndexError"
    using select_gps s by (rule start_slideshow_show_fails)
  with l s show ?thesis
    by (intro conjI)
qed


end
